theory Spec2Isabelle
  imports Complex_Main "HOL-Library.AList"
begin

section \<open>Container logistics optimizer: a shallow embedding of container\_optimizer.py\<close>

text \<open>
  The development follows \<^verbatim>\<open>src/python_optimization/container_optimizer.py\<close>.
  Conventions of the embedding:
  \<^item> A JSON object read with fixed keys is a record whose fields are options: \<open>None\<close> is an
    absent key, \<open>Some v\<close> a present key whose value has the type the dataclass annotation
    (or the arithmetic done with it) gives it. Values of other JSON types are outside the
    input type of the model.
  \<^item> Python \<open>int\<close> is \<open>int\<close>; Python \<open>float\<close> is idealised as \<open>real\<close>.
  \<^item> A Python exception is a value of type \<open>exn\<close>; code that can raise returns
    \<open>exn + 'a\<close>, and every \<open>try/except Exception\<close> of the source is a case
    distinction on that sum.
  \<^item> The OR-Tools solvers are the environment: a solver is a function from the model the
    code builds to what \<open>Solve\<close> answers, and \<open>CreateSolver\<close> yields a solver or nothing.
\<close>

subsection \<open>Exceptions\<close>

datatype exn = KeyError string | IndexError | RuntimeError string

text \<open>\<open>str(e)\<close>: a \<open>KeyError\<close> prints its key in single quotes.\<close>

fun str_exn :: "exn \<Rightarrow> string" where
  "str_exn (KeyError k) = [CHR 0x27] @ k @ [CHR 0x27]"
| "str_exn IndexError = ''list index out of range''"
| "str_exn (RuntimeError m) = m"

text \<open>\<open>d[k]\<close> on a dictionary: the value, or \<open>KeyError\<close>.\<close>

fun subscript :: "'a option \<Rightarrow> string \<Rightarrow> exn + 'a" where
  "subscript None k = Inl (KeyError k)"
| "subscript (Some v) k = Inr v"

text \<open>\<open>d.get(k, default)\<close>.\<close>

fun get_default :: "'a option \<Rightarrow> 'a \<Rightarrow> 'a" where
  "get_default None d = d"
| "get_default (Some v) d = v"

subsection \<open>Data model (the dataclasses)\<close>

record Port =
  name :: string
  current_empty :: int
  capacity :: int
  demand_forecast :: "int list"
  storage_cost_per_day :: real
  handling_cost :: real
  coordinates :: "real \<times> real"

record Container =
  cid :: string
  ctype :: string
  current_port :: string
  dwell_time :: int
  next_booking_port :: "string option"
  priority :: int

record Route =
  from_port :: string
  to_port :: string
  distance_km :: real
  transport_cost :: real
  transit_time_hours :: int
  capacity_teu :: int

text \<open>
  The optimizer object: \<open>ports\<close> is a Python dict, kept as an association list in
  insertion order (assigning to an existing key replaces the value in place);
  \<open>containers\<close> and \<open>routes\<close> are lists.
\<close>

record ContainerOptimizer =
  ports :: "(string \<times> Port) list"
  containers :: "Container list"
  routes :: "Route list"

definition init :: ContainerOptimizer where
  "init = \<lparr>ports = [], containers = [], routes = []\<rparr>"

subsection \<open>The input payload\<close>

record port_data =
  pd_name :: "string option"
  pd_current_empty :: "int option"
  pd_capacity :: "int option"
  pd_lstm_forecast :: "int list option"
  pd_storage_cost :: "real option"
  pd_handling_cost :: "real option"
  pd_lat :: "real option"
  pd_lng :: "real option"

record container_data =
  cd_id :: "string option"
  cd_type :: "string option"
  cd_current_port :: "string option"
  cd_dwell_time :: "int option"
  cd_next_booking_port :: "string option"
  cd_priority :: "int option"

record route_data =
  rd_from :: "string option"
  rd_to :: "string option"
  rd_distance :: "real option"
  rd_cost :: "real option"
  rd_transit_time :: "int option"
  rd_capacity :: "int option"

record relocation_data =
  rl_from_port :: "string option"
  rl_to_port :: "string option"
  rl_container_count :: "int option"

record demand_data =
  dd_id :: "string option"
  dd_port :: "string option"
  dd_required_type :: "string option"
  dd_priority :: "int option"

record input_data =
  in_optimization_type :: "string option"
  in_ports :: "port_data list option"
  in_containers :: "container_data list option"
  in_routes :: "route_data list option"
  in_relocations :: "relocation_data list option"
  in_demands :: "demand_data list option"

subsection \<open>load\_data\<close>

text \<open>
  One iteration of each loop of \<open>load_data\<close>. The keyword arguments are evaluated in
  the order written, so the first absent key is the one the \<open>KeyError\<close> names.
\<close>

definition parse_port :: "port_data \<Rightarrow> exn + Port" where
  "parse_port d =
    (case subscript (pd_name d) ''name'' of Inl e \<Rightarrow> Inl e | Inr n \<Rightarrow>
     case subscript (pd_current_empty d) ''current_empty'' of Inl e \<Rightarrow> Inl e | Inr ce \<Rightarrow>
     case subscript (pd_capacity d) ''capacity'' of Inl e \<Rightarrow> Inl e | Inr cap \<Rightarrow>
     case subscript (pd_lstm_forecast d) ''lstm_forecast'' of Inl e \<Rightarrow> Inl e | Inr fc \<Rightarrow>
     case subscript (pd_storage_cost d) ''storage_cost'' of Inl e \<Rightarrow> Inl e | Inr sc \<Rightarrow>
     case subscript (pd_handling_cost d) ''handling_cost'' of Inl e \<Rightarrow> Inl e | Inr hc \<Rightarrow>
     case subscript (pd_lat d) ''lat'' of Inl e \<Rightarrow> Inl e | Inr lat \<Rightarrow>
     case subscript (pd_lng d) ''lng'' of Inl e \<Rightarrow> Inl e | Inr lng \<Rightarrow>
       Inr \<lparr>name = n, current_empty = ce, capacity = cap, demand_forecast = fc,
            storage_cost_per_day = sc, handling_cost = hc, coordinates = (lat, lng)\<rparr>)"

definition parse_container :: "container_data \<Rightarrow> exn + Container" where
  "parse_container d =
    (case subscript (cd_id d) ''id'' of Inl e \<Rightarrow> Inl e | Inr i \<Rightarrow>
     case subscript (cd_type d) ''type'' of Inl e \<Rightarrow> Inl e | Inr ty \<Rightarrow>
     case subscript (cd_current_port d) ''current_port'' of Inl e \<Rightarrow> Inl e | Inr cp \<Rightarrow>
     case subscript (cd_dwell_time d) ''dwell_time'' of Inl e \<Rightarrow> Inl e | Inr dw \<Rightarrow>
     case subscript (cd_priority d) ''priority'' of Inl e \<Rightarrow> Inl e | Inr pr \<Rightarrow>
       Inr \<lparr>cid = i, ctype = ty, current_port = cp, dwell_time = dw,
            next_booking_port = cd_next_booking_port d, priority = pr\<rparr>)"

definition parse_route :: "route_data \<Rightarrow> exn + Route" where
  "parse_route d =
    (case subscript (rd_from d) ''from'' of Inl e \<Rightarrow> Inl e | Inr f \<Rightarrow>
     case subscript (rd_to d) ''to'' of Inl e \<Rightarrow> Inl e | Inr t \<Rightarrow>
     case subscript (rd_distance d) ''distance'' of Inl e \<Rightarrow> Inl e | Inr dk \<Rightarrow>
     case subscript (rd_cost d) ''cost'' of Inl e \<Rightarrow> Inl e | Inr c \<Rightarrow>
     case subscript (rd_transit_time d) ''transit_time'' of Inl e \<Rightarrow> Inl e | Inr tt \<Rightarrow>
     case subscript (rd_capacity d) ''capacity'' of Inl e \<Rightarrow> Inl e | Inr cap \<Rightarrow>
       Inr \<lparr>from_port = f, to_port = t, distance_km = dk, transport_cost = c,
            transit_time_hours = tt, capacity_teu = cap\<rparr>)"

text \<open>
  The three loops. Each mutates the optimizer entry by entry, so an exception leaves the
  entries loaded before it in place; the loop returns the exception (if any) and the
  optimizer as it then stands.
\<close>

fun load_ports :: "ContainerOptimizer \<Rightarrow> port_data list \<Rightarrow> exn option \<times> ContainerOptimizer" where
  "load_ports self [] = (None, self)"
| "load_ports self (d # ds) =
    (case parse_port d of
       Inl e \<Rightarrow> (Some e, self)
     | Inr p \<Rightarrow> load_ports (self\<lparr>ports := AList.update (name p) p (ports self)\<rparr>) ds)"

fun load_containers :: "ContainerOptimizer \<Rightarrow> container_data list \<Rightarrow> exn option \<times> ContainerOptimizer" where
  "load_containers self [] = (None, self)"
| "load_containers self (d # ds) =
    (case parse_container d of
       Inl e \<Rightarrow> (Some e, self)
     | Inr c \<Rightarrow> load_containers (self\<lparr>containers := containers self @ [c]\<rparr>) ds)"

fun load_routes :: "ContainerOptimizer \<Rightarrow> route_data list \<Rightarrow> exn option \<times> ContainerOptimizer" where
  "load_routes self [] = (None, self)"
| "load_routes self (d # ds) =
    (case parse_route d of
       Inl e \<Rightarrow> (Some e, self)
     | Inr r \<Rightarrow> load_routes (self\<lparr>routes := routes self @ [r]\<rparr>) ds)"

text \<open>
  The body of the \<open>try\<close> block: ports, then containers, then routes, stopping at the
  first exception. A missing top-level key reads as the empty list
  (\<open>data.get('ports', [])\<close>).
\<close>

definition load_body :: "ContainerOptimizer \<Rightarrow> input_data \<Rightarrow> exn option \<times> ContainerOptimizer" where
  "load_body self data =
    (case load_ports self (get_default (in_ports data) []) of
       (Some e, s1) \<Rightarrow> (Some e, s1)
     | (None, s1) \<Rightarrow>
        (case load_containers s1 (get_default (in_containers data) []) of
           (Some e, s2) \<Rightarrow> (Some e, s2)
         | (None, s2) \<Rightarrow> load_routes s2 (get_default (in_routes data) [])))"

text \<open>
  \<open>load_data\<close> itself: the returned flag, the optimizer after the call, and the lines
  written to standard error. \<open>except Exception\<close> turns every exception of the body into
  the flag \<open>False\<close> and one line on standard error.
\<close>

record load_outcome =
  ok :: bool
  loaded :: ContainerOptimizer
  load_stderr :: "string list"

definition load_data :: "ContainerOptimizer \<Rightarrow> input_data \<Rightarrow> load_outcome" where
  "load_data self data =
    (case load_body self data of
       (None, s) \<Rightarrow> \<lparr>ok = True, loaded = s, load_stderr = []\<rparr>
     | (Some e, s) \<Rightarrow>
         \<lparr>ok = False, loaded = s, load_stderr = [''Error loading data: '' @ str_exn e]\<rparr>)"

text \<open>An entry is complete when every key its loop reads with \<open>[...]\<close> is present.\<close>

definition port_complete :: "port_data \<Rightarrow> bool" where
  "port_complete d \<longleftrightarrow>
     pd_name d \<noteq> None \<and> pd_current_empty d \<noteq> None \<and> pd_capacity d \<noteq> None \<and>
     pd_lstm_forecast d \<noteq> None \<and> pd_storage_cost d \<noteq> None \<and> pd_handling_cost d \<noteq> None \<and>
     pd_lat d \<noteq> None \<and> pd_lng d \<noteq> None"

definition container_complete :: "container_data \<Rightarrow> bool" where
  "container_complete d \<longleftrightarrow>
     cd_id d \<noteq> None \<and> cd_type d \<noteq> None \<and> cd_current_port d \<noteq> None \<and>
     cd_dwell_time d \<noteq> None \<and> cd_priority d \<noteq> None"

definition route_complete :: "route_data \<Rightarrow> bool" where
  "route_complete d \<longleftrightarrow>
     rd_from d \<noteq> None \<and> rd_to d \<noteq> None \<and> rd_distance d \<noteq> None \<and>
     rd_cost d \<noteq> None \<and> rd_transit_time d \<noteq> None \<and> rd_capacity d \<noteq> None"

definition entries_complete :: "input_data \<Rightarrow> bool" where
  "entries_complete data \<longleftrightarrow>
     list_all port_complete (get_default (in_ports data) []) \<and>
     list_all container_complete (get_default (in_containers data) []) \<and>
     list_all route_complete (get_default (in_routes data) [])"

subsection \<open>The linear solver interface\<close>

text \<open>
  The decision variables of the two integer programs. A variable of the source is the
  Python object stored under its indices (\<open>flow[from][to][ctype][t]\<close>,
  \<open>storage[port][ctype][t]\<close>, \<open>x[i][j]\<close>), so the indices identify it.
\<close>

datatype var =
  Flow string string string nat
| Storage string string nat
| Assign nat nat

text \<open>
  Linear expressions and constraints as the code writes them with the overloaded
  operators and \<open>solver.Sum\<close>; the constants of every constraint are integers.
\<close>

datatype linexpr =
  LVar var
| LConst int
| LAdd linexpr linexpr
| LSub linexpr linexpr
| LSum "linexpr list"

datatype constraint = CEq linexpr linexpr | CLe linexpr linexpr

text \<open>
  What the code hands to the solver: the variables with their bounds
  (\<open>IntVar(lb, ub, name)\<close>), the terms of the objective to minimise, and the
  constraints added.
\<close>

record lp_model =
  variables :: "(var \<times> int \<times> int) list"
  objective :: "(real \<times> var) list"
  constraints :: "constraint list"

fun value_of :: "(var \<Rightarrow> int) \<Rightarrow> linexpr \<Rightarrow> int" where
  "value_of s (LVar v) = s v"
| "value_of s (LConst c) = c"
| "value_of s (LAdd a b) = value_of s a + value_of s b"
| "value_of s (LSub a b) = value_of s a - value_of s b"
| "value_of s (LSum es) = sum_list (map (value_of s) es)"

fun holds :: "(var \<Rightarrow> int) \<Rightarrow> constraint \<Rightarrow> bool" where
  "holds s (CEq a b) \<longleftrightarrow> value_of s a = value_of s b"
| "holds s (CLe a b) \<longleftrightarrow> value_of s a \<le> value_of s b"

definition within_bounds :: "(var \<Rightarrow> int) \<Rightarrow> var \<times> int \<times> int \<Rightarrow> bool" where
  "within_bounds s b = (case b of (v, l, u) \<Rightarrow> l \<le> s v \<and> s v \<le> u)"

definition feasible :: "lp_model \<Rightarrow> (var \<Rightarrow> int) \<Rightarrow> bool" where
  "feasible m s \<longleftrightarrow> list_all (within_bounds s) (variables m) \<and> list_all (holds s) (constraints m)"

definition objective_value :: "lp_model \<Rightarrow> (var \<Rightarrow> int) \<Rightarrow> real" where
  "objective_value m s = sum_list (map (\<lambda>(c, v). c * real_of_int (s v)) (objective m))"

text \<open>
  What comes back from building and solving a model: a status code with the values of
  the variables (\<open>solution_value()\<close> of an integer variable is taken as that integer),
  or an exception raised by the solver library while the model is built, solved or
  read. \<open>OPTIMAL\<close> is \<open>pywraplp.Solver.OPTIMAL\<close>.
\<close>

datatype solve_outcome = Solved nat "var \<Rightarrow> int" | Raises exn

type_synonym solver = "lp_model \<Rightarrow> solve_outcome"

definition OPTIMAL :: nat where
  "OPTIMAL = 0"

text \<open>
  The solver's contract, for one model: when it reports \<open>OPTIMAL\<close>, the values it
  reports respect the bounds and the constraints of the model.
\<close>

definition solver_sound :: "solver \<Rightarrow> lp_model \<Rightarrow> bool" where
  "solver_sound solver m =
    (case solver m of
       Solved st s \<Rightarrow> if st = OPTIMAL then feasible m s else True
     | Raises e \<Rightarrow> True)"

text \<open>\<open>str(n)\<close> of a natural number, for the status in an error message.\<close>

fun str_nat :: "nat \<Rightarrow> string" where
  "str_nat n =
    (if n < 10 then [char_of (48 + n)]
     else str_nat (n div 10) @ [char_of (48 + n mod 10)])"

declare str_nat.simps [simp del]

subsection \<open>Redistribution: the model\<close>

definition time_horizon :: nat where
  "time_horizon = 7"

definition port_names :: "ContainerOptimizer \<Rightarrow> string list" where
  "port_names self = map fst (ports self)"

text \<open>
  \<open>list(set(c.type for c in self.containers))\<close>: the distinct types. Python leaves the
  order of a set open; here it is the order \<open>remdups\<close> gives (each type at its last
  occurrence), and no property below depends on it.
\<close>

definition container_types :: "ContainerOptimizer \<Rightarrow> string list" where
  "container_types self = remdups (map ctype (containers self))"

text \<open>The first route of the list that matches the ordered pair.\<close>

definition find_route :: "Route list \<Rightarrow> string \<Rightarrow> string \<Rightarrow> Route option" where
  "find_route rs f t = find (\<lambda>r. from_port r = f \<and> to_port r = t) rs"

definition route_cost :: "Route list \<Rightarrow> string \<Rightarrow> string \<Rightarrow> real" where
  "route_cost rs f t = (case find_route rs f t of None \<Rightarrow> 50 | Some r \<Rightarrow> transport_cost r)"

definition route_capacity :: "Route list \<Rightarrow> string \<Rightarrow> string \<Rightarrow> int" where
  "route_capacity rs f t = (case find_route rs f t of None \<Rightarrow> 100 | Some r \<Rightarrow> capacity_teu r)"

definition flow_vars :: "ContainerOptimizer \<Rightarrow> (var \<times> int \<times> int) list" where
  "flow_vars self =
    [(Flow f t c d, 0, 1000).
       f \<leftarrow> port_names self, t \<leftarrow> port_names self, f \<noteq> t,
       c \<leftarrow> container_types self, d \<leftarrow> [0..<time_horizon]]"

text \<open>
  The loops that read \<open>self.ports[port]\<close> for a \<open>port\<close> of \<open>port_names\<close> run here over
  the items of the dict, which pairs each key with that value.
\<close>

definition storage_vars :: "ContainerOptimizer \<Rightarrow> (var \<times> int \<times> int) list" where
  "storage_vars self =
    [(Storage p c d, 0, capacity po).
       (p, po) \<leftarrow> ports self, c \<leftarrow> container_types self, d \<leftarrow> [0..<time_horizon]]"

definition storage_cost_terms :: "ContainerOptimizer \<Rightarrow> (real \<times> var) list" where
  "storage_cost_terms self =
    [(storage_cost_per_day po, Storage p c d).
       (p, po) \<leftarrow> ports self, c \<leftarrow> container_types self, d \<leftarrow> [0..<time_horizon]]"

definition transport_cost_terms :: "ContainerOptimizer \<Rightarrow> (real \<times> var) list" where
  "transport_cost_terms self =
    [(route_cost (routes self) f t, Flow f t c d).
       f \<leftarrow> port_names self, t \<leftarrow> port_names self, f \<noteq> t,
       c \<leftarrow> container_types self, d \<leftarrow> [0..<time_horizon]]"

definition current_inventory :: "ContainerOptimizer \<Rightarrow> string \<Rightarrow> string \<Rightarrow> int" where
  "current_inventory self p c =
     int (length [x \<leftarrow> containers self. current_port x = p \<and> ctype x = c])"

definition lstm_demand :: "Port \<Rightarrow> nat \<Rightarrow> int" where
  "lstm_demand po t = (if t < length (demand_forecast po) then demand_forecast po ! t else 0)"

definition inflow :: "ContainerOptimizer \<Rightarrow> string \<Rightarrow> string \<Rightarrow> nat \<Rightarrow> linexpr" where
  "inflow self p c t = LSum [LVar (Flow other p c t). other \<leftarrow> port_names self, other \<noteq> p]"

definition outflow :: "ContainerOptimizer \<Rightarrow> string \<Rightarrow> string \<Rightarrow> nat \<Rightarrow> linexpr" where
  "outflow self p c t = LSum [LVar (Flow p other c t). other \<leftarrow> port_names self, other \<noteq> p]"

definition conservation :: "ContainerOptimizer \<Rightarrow> string \<Rightarrow> Port \<Rightarrow> string \<Rightarrow> nat \<Rightarrow> constraint" where
  "conservation self p po c t =
    (if t = 0 then
       CEq (LVar (Storage p c t))
           (LSub (LAdd (LConst (current_inventory self p c)) (inflow self p c t))
                 (outflow self p c t))
     else
       CEq (LVar (Storage p c t))
           (LSub (LSub (LAdd (LVar (Storage p c (t - 1))) (inflow self p c t))
                       (outflow self p c t))
                 (LConst (lstm_demand po t))))"

definition flow_conservation_constraints :: "ContainerOptimizer \<Rightarrow> constraint list" where
  "flow_conservation_constraints self =
    [conservation self p po c t.
       (p, po) \<leftarrow> ports self, c \<leftarrow> container_types self, t \<leftarrow> [0..<time_horizon]]"

definition port_capacity_constraints :: "ContainerOptimizer \<Rightarrow> constraint list" where
  "port_capacity_constraints self =
    [CLe (LSum [LVar (Storage p c t). c \<leftarrow> container_types self]) (LConst (capacity po)).
       (p, po) \<leftarrow> ports self, t \<leftarrow> [0..<time_horizon]]"

definition route_capacity_constraints :: "ContainerOptimizer \<Rightarrow> constraint list" where
  "route_capacity_constraints self =
    [CLe (LSum [LVar (Flow f t c d). c \<leftarrow> container_types self])
         (LConst (route_capacity (routes self) f t)).
       f \<leftarrow> port_names self, t \<leftarrow> port_names self, f \<noteq> t, d \<leftarrow> [0..<time_horizon]]"

definition redistribution_model :: "ContainerOptimizer \<Rightarrow> lp_model" where
  "redistribution_model self =
    \<lparr>variables = flow_vars self @ storage_vars self,
     objective = storage_cost_terms self @ transport_cost_terms self,
     constraints = flow_conservation_constraints self @ port_capacity_constraints self
                   @ route_capacity_constraints self\<rparr>"

subsection \<open>Redistribution: the returned solution\<close>

record relocation =
  r_from_port :: string
  r_to_port :: string
  r_container_type :: string
  quantity :: int
  day :: nat
  r_priority :: string

text \<open>
  The recommendation strings carry formatted numbers and pictographs; they are kept as
  the data they are formatted from.
\<close>

datatype recommendation =
  Urgent_relocations nat
| Total_movements nat
| Estimated_total_cost real
| Advice string

record solution =
  status :: string
  total_cost :: real
  relocations :: "relocation list"
  storage_plan :: "(string \<times> (string \<times> int list) list) list"
  recommendations :: "recommendation list"

record fallback =
  fb_status :: string
  fb_relocations :: "relocation list"
  fb_recommendations :: "recommendation list"

text \<open>
  The dict the method returns: the solution, or \<open>{"error": ...}\<close> with or without the
  key \<open>fallback_solution\<close>.
\<close>

datatype redistribution_result =
  Solution solution
| Error string "fallback option"

definition extract_relocations :: "ContainerOptimizer \<Rightarrow> (var \<Rightarrow> int) \<Rightarrow> relocation list" where
  "extract_relocations self s =
    [\<lparr>r_from_port = f, r_to_port = t, r_container_type = c, quantity = s (Flow f t c d),
      day = d + 1, r_priority = (if d \<le> 2 then ''high'' else ''medium'')\<rparr>.
       f \<leftarrow> port_names self, t \<leftarrow> port_names self, f \<noteq> t,
       c \<leftarrow> container_types self, d \<leftarrow> [0..<time_horizon], s (Flow f t c d) > 0]"

definition extract_storage_plan ::
  "ContainerOptimizer \<Rightarrow> (var \<Rightarrow> int) \<Rightarrow> (string \<times> (string \<times> int list) list) list" where
  "extract_storage_plan self s =
    [(p, [(c, [s (Storage p c t). t \<leftarrow> [0..<time_horizon]]). c \<leftarrow> container_types self]).
       p \<leftarrow> port_names self]"

definition generate_recommendations :: "relocation list \<Rightarrow> real \<Rightarrow> recommendation list" where
  "generate_recommendations rels cost =
    (if rels \<noteq> [] then
       (let urgent_relocations = [r \<leftarrow> rels. r_priority r = ''high'']
        in (if urgent_relocations \<noteq> [] then [Urgent_relocations (length urgent_relocations)]
            else [])
           @ [Total_movements (length rels)])
     else [])
    @ [Estimated_total_cost cost]"

definition extract_redistribution_solution ::
  "ContainerOptimizer \<Rightarrow> (var \<Rightarrow> int) \<Rightarrow> solution" where
  "extract_redistribution_solution self s =
    (let cost = objective_value (redistribution_model self) s;
         rels = extract_relocations self s
     in \<lparr>status = ''optimal'', total_cost = cost, relocations = rels,
         storage_plan = extract_storage_plan self s,
         recommendations = generate_recommendations rels cost\<rparr>)"

definition create_fallback_solution :: fallback where
  "create_fallback_solution =
    \<lparr>fb_status = ''fallback'', fb_relocations = [],
     fb_recommendations =
       [Advice ''Optimization solver failed - using simple heuristics'',
        Advice ''Consider manual review of container distribution'',
        Advice ''Check data quality and constraints'']\<rparr>"

text \<open>
  \<open>optimize_container_redistribution\<close>. Its first argument is what
  \<open>pywraplp.Solver.CreateSolver('SCIP')\<close> returns.
\<close>

definition optimize_container_redistribution ::
  "solver option \<Rightarrow> ContainerOptimizer \<Rightarrow> redistribution_result" where
  "optimize_container_redistribution created self =
    (case created of
       None \<Rightarrow> Error ''SCIP solver not available'' None
     | Some solver \<Rightarrow>
        (case solver (redistribution_model self) of
           Solved st s \<Rightarrow>
             if st = OPTIMAL then Solution (extract_redistribution_solution self s)
             else Error (''Optimization failed with status: '' @ str_nat st)
                        (Some create_fallback_solution)
         | Raises e \<Rightarrow> Error (str_exn e) (Some create_fallback_solution)))"


definition planned_storage :: "solution \<Rightarrow> string \<Rightarrow> string \<Rightarrow> nat \<Rightarrow> int option" where
  "planned_storage sol p c t =
    (case map_of (storage_plan sol) p of
       None \<Rightarrow> None
     | Some row \<Rightarrow>
        (case map_of row c of
           None \<Rightarrow> None
         | Some xs \<Rightarrow> if t < length xs then Some (xs ! t) else None))"

text \<open>
  The returned flow into and out of a port, for one type and one day index \<open>t\<close>
  (an entry carries \<open>day = t + 1\<close>); and the returned flow on an ordered pair of ports.
\<close>

definition returned_inflow :: "solution \<Rightarrow> string \<Rightarrow> string \<Rightarrow> nat \<Rightarrow> int" where
  "returned_inflow sol p c t =
    sum_list [quantity r. r \<leftarrow> relocations sol,
                r_to_port r = p \<and> r_container_type r = c \<and> day r = t + 1]"

definition returned_outflow :: "solution \<Rightarrow> string \<Rightarrow> string \<Rightarrow> nat \<Rightarrow> int" where
  "returned_outflow sol p c t =
    sum_list [quantity r. r \<leftarrow> relocations sol,
                r_from_port r = p \<and> r_container_type r = c \<and> day r = t + 1]"


subsection \<open>Assignment\<close>

text \<open>A loop whose body can raise: the results in order, or the first exception.\<close>

fun traverse :: "('a \<Rightarrow> exn + 'b) \<Rightarrow> 'a list \<Rightarrow> exn + 'b list" where
  "traverse f [] = Inr []"
| "traverse f (x # xs) =
    (case f x of
       Inl e \<Rightarrow> Inl e
     | Inr y \<Rightarrow> (case traverse f xs of Inl e \<Rightarrow> Inl e | Inr ys \<Rightarrow> Inr (y # ys)))"

definition compatibility_map :: "(string \<times> string list) list" where
  "compatibility_map =
    [(''20GP'', [''20GP'']),
     (''40GP'', [''40GP'', ''40HC'']),
     (''40HC'', [''40HC'', ''40GP''])]"

definition is_compatible :: "string \<Rightarrow> string \<Rightarrow> bool" where
  "is_compatible container_type required_type \<longleftrightarrow>
     required_type \<in> set (get_default (map_of compatibility_map container_type) [])"

text \<open>
  \<open>_calculate_assignment_cost\<close>. The container and the demand are dicts of the request;
  the keys are read in the order of the source.
\<close>

definition calculate_assignment_cost ::
  "ContainerOptimizer \<Rightarrow> container_data \<Rightarrow> demand_data \<Rightarrow> exn + real" where
  "calculate_assignment_cost self container demand =
    (let base_cost = 10 in
     case subscript (cd_current_port container) ''current_port'' of Inl e \<Rightarrow> Inl e | Inr fp \<Rightarrow>
     case subscript (dd_port demand) ''port'' of Inl e \<Rightarrow> Inl e | Inr tp \<Rightarrow>
     let distance_cost = (case find_route (routes self) fp tp of
                            None \<Rightarrow> 0 | Some route \<Rightarrow> transport_cost route) in
     case subscript (cd_type container) ''type'' of Inl e \<Rightarrow> Inl e | Inr ct \<Rightarrow>
     case subscript (dd_required_type demand) ''required_type'' of Inl e \<Rightarrow> Inl e | Inr rt \<Rightarrow>
     let type_penalty = (if is_compatible ct rt then 0 else 1000);
         urgency_bonus = - real_of_int (get_default (dd_priority demand) 0) * 5
     in Inr (base_cost + distance_cost + type_penalty + urgency_bonus))"

text \<open>\<open>enumerate(xs)\<close>, and the pairs the nested loops over containers and demands visit.\<close>

definition indexed :: "'a list \<Rightarrow> (nat \<times> 'a) list" where
  "indexed xs = zip [0..<length xs] xs"

definition pairs ::
  "container_data list \<Rightarrow> demand_data list
   \<Rightarrow> ((nat \<times> container_data) \<times> (nat \<times> demand_data)) list" where
  "pairs cs ds = List.product (indexed cs) (indexed ds)"

definition container_index :: "(nat \<times> container_data) \<times> (nat \<times> demand_data) \<Rightarrow> nat" where
  "container_index p = fst (fst p)"

definition demand_index :: "(nat \<times> container_data) \<times> (nat \<times> demand_data) \<Rightarrow> nat" where
  "demand_index p = fst (snd p)"

definition assign_vars :: "container_data list \<Rightarrow> demand_data list \<Rightarrow> (var \<times> int \<times> int) list" where
  "assign_vars cs ds = [(Assign i j, 0, 1). i \<leftarrow> [0..<length cs], j \<leftarrow> [0..<length ds]]"

definition objective_term ::
  "ContainerOptimizer \<Rightarrow> (nat \<times> container_data) \<times> (nat \<times> demand_data) \<Rightarrow> exn + real \<times> var" where
  "objective_term self p =
    (case p of ((i, container), (j, demand)) \<Rightarrow>
      (case calculate_assignment_cost self container demand of
         Inl e \<Rightarrow> Inl e
       | Inr cost \<Rightarrow> Inr (cost, Assign i j)))"

definition container_constraints :: "container_data list \<Rightarrow> demand_data list \<Rightarrow> constraint list" where
  "container_constraints cs ds =
    [CLe (LSum [LVar (Assign i j). j \<leftarrow> [0..<length ds]]) (LConst 1). i \<leftarrow> [0..<length cs]]"

definition demand_constraints :: "container_data list \<Rightarrow> demand_data list \<Rightarrow> constraint list" where
  "demand_constraints cs ds =
    [CLe (LSum [LVar (Assign i j). i \<leftarrow> [0..<length cs]]) (LConst 1). j \<leftarrow> [0..<length ds]]"

text \<open>
  The body of the type compatibility loop for one pair: the constraint \<open>x[i][j] == 0\<close>
  when the types are not compatible, nothing otherwise.
\<close>

definition compatibility_constraint ::
  "(nat \<times> container_data) \<times> (nat \<times> demand_data) \<Rightarrow> exn + constraint list" where
  "compatibility_constraint p =
    (case p of ((i, container), (j, demand)) \<Rightarrow>
      case subscript (cd_type container) ''type'' of Inl e \<Rightarrow> Inl e | Inr ct \<Rightarrow>
      case subscript (dd_required_type demand) ''required_type'' of Inl e \<Rightarrow> Inl e | Inr rt \<Rightarrow>
        Inr (if \<not> is_compatible ct rt then [CEq (LVar (Assign i j)) (LConst 0)] else []))"

definition assignment_model ::
  "ContainerOptimizer \<Rightarrow> container_data list \<Rightarrow> demand_data list \<Rightarrow> exn + lp_model" where
  "assignment_model self cs ds =
    (case traverse (objective_term self) (pairs cs ds) of
       Inl e \<Rightarrow> Inl e
     | Inr objective_terms \<Rightarrow>
        (case traverse compatibility_constraint (pairs cs ds) of
           Inl e \<Rightarrow> Inl e
         | Inr forced \<Rightarrow>
             Inr \<lparr>variables = assign_vars cs ds,
                  objective = objective_terms,
                  constraints = container_constraints cs ds @ demand_constraints cs ds
                                @ concat forced\<rparr>))"

record assignment =
  a_container_id :: string
  a_demand_id :: string
  a_from_port :: string
  a_to_port :: string
  a_container_type :: string
  a_cost :: real

text \<open>
  The dict \<open>optimize_assignment\<close> returns when it does not return an error. The keys
  \<open>unmet_demands\<close> and \<open>total_cost\<close> are not in every such dict, so they are options.
\<close>

record assignment_output =
  assignments :: "assignment list"
  unassigned_containers :: "container_data list"
  unmet_demands :: "demand_data list option"
  as_total_cost :: "real option"

datatype assignment_result = Assignment assignment_output | Assignment_error string

text \<open>\<open>x[i][j].solution_value() > 0.5\<close>.\<close>

definition assigned :: "(var \<Rightarrow> int) \<Rightarrow> (nat \<times> container_data) \<times> (nat \<times> demand_data) \<Rightarrow> bool" where
  "assigned s p = (case p of ((i, container), (j, demand)) \<Rightarrow> 0.5 < real_of_int (s (Assign i j)))"

definition assigned_pairs ::
  "(var \<Rightarrow> int) \<Rightarrow> container_data list \<Rightarrow> demand_data list
   \<Rightarrow> ((nat \<times> container_data) \<times> (nat \<times> demand_data)) list" where
  "assigned_pairs s cs ds = filter (assigned s) (pairs cs ds)"

definition make_assignment ::
  "ContainerOptimizer \<Rightarrow> (nat \<times> container_data) \<times> (nat \<times> demand_data) \<Rightarrow> exn + assignment" where
  "make_assignment self p =
    (case p of ((i, container), (j, demand)) \<Rightarrow>
      case subscript (cd_id container) ''id'' of Inl e \<Rightarrow> Inl e | Inr ci \<Rightarrow>
      case subscript (dd_id demand) ''id'' of Inl e \<Rightarrow> Inl e | Inr di \<Rightarrow>
      case subscript (cd_current_port container) ''current_port'' of Inl e \<Rightarrow> Inl e | Inr fp \<Rightarrow>
      case subscript (dd_port demand) ''port'' of Inl e \<Rightarrow> Inl e | Inr tp \<Rightarrow>
      case subscript (cd_type container) ''type'' of Inl e \<Rightarrow> Inl e | Inr ct \<Rightarrow>
      case calculate_assignment_cost self container demand of Inl e \<Rightarrow> Inl e | Inr cost \<Rightarrow>
        Inr \<lparr>a_container_id = ci, a_demand_id = di, a_from_port = fp, a_to_port = tp,
             a_container_type = ct, a_cost = cost\<rparr>)"

definition extract_assignment_solution ::
  "ContainerOptimizer \<Rightarrow> lp_model \<Rightarrow> (var \<Rightarrow> int) \<Rightarrow> container_data list \<Rightarrow> demand_data list
   \<Rightarrow> exn + assignment_output" where
  "extract_assignment_solution self m s cs ds =
    (let chosen = assigned_pairs s cs ds in
     case traverse (make_assignment self) chosen of
       Inl e \<Rightarrow> Inl e
     | Inr entries \<Rightarrow>
        (let assigned_containers = map container_index chosen;
             assigned_demands = map demand_index chosen
         in Inr \<lparr>assignments = entries,
                 unassigned_containers =
                   [c. (i, c) \<leftarrow> indexed cs, i \<notin> set assigned_containers],
                 unmet_demands =
                   Some [d. (j, d) \<leftarrow> indexed ds, j \<notin> set assigned_demands],
                 as_total_cost = Some (objective_value m s)\<rparr>))"

text \<open>Whether the types of a pair are present and compatible.\<close>

definition compatible_pair :: "(nat \<times> container_data) \<times> (nat \<times> demand_data) \<Rightarrow> bool" where
  "compatible_pair p =
    (case p of ((i, container), (j, demand)) \<Rightarrow>
      (case cd_type container of
         None \<Rightarrow> False
       | Some ct \<Rightarrow>
          (case dd_required_type demand of None \<Rightarrow> False | Some rt \<Rightarrow> is_compatible ct rt)))"

text \<open>
  \<open>optimize_assignment\<close>. The first argument is what \<open>CreateSolver('SCIP')\<close> returns;
  it is looked at only after the test for empty lists.
\<close>

definition optimize_assignment ::
  "solver option \<Rightarrow> ContainerOptimizer \<Rightarrow> container_data list \<Rightarrow> demand_data list
   \<Rightarrow> assignment_result" where
  "optimize_assignment created self cs ds =
    (if cs = [] \<or> ds = [] then
       Assignment \<lparr>assignments = [], unassigned_containers = cs, unmet_demands = None,
                   as_total_cost = None\<rparr>
     else
       case created of
         None \<Rightarrow> Assignment_error ''Assignment solver not available''
       | Some solver \<Rightarrow>
          (case assignment_model self cs ds of
             Inl e \<Rightarrow> Assignment_error (str_exn e)
           | Inr m \<Rightarrow>
              (case solver m of
                 Solved st s \<Rightarrow>
                   if st = OPTIMAL then
                     (case extract_assignment_solution self m s cs ds of
                        Inl e \<Rightarrow> Assignment_error (str_exn e)
                      | Inr out \<Rightarrow> Assignment out)
                   else Assignment_error (''Assignment optimization failed: '' @ str_nat st)
               | Raises e \<Rightarrow> Assignment_error (str_exn e))))"

subsection \<open>Vehicle routing\<close>

text \<open>\<open>int(x)\<close> of a float: truncation towards zero.\<close>

definition py_int :: "real \<Rightarrow> int" where
  "py_int x = (if 0 \<le> x then \<lfloor>x\<rfloor> else \<lceil>x\<rceil>)"

text \<open>\<open>xs[i]\<close> for an index that is not negative.\<close>

definition item :: "'a list \<Rightarrow> nat \<Rightarrow> exn + 'a" where
  "item xs i = (if i < length xs then Inr (xs ! i) else Inl IndexError)"

definition distance_callback ::
  "ContainerOptimizer \<Rightarrow> relocation_data list \<Rightarrow> nat \<Rightarrow> nat \<Rightarrow> exn + int" where
  "distance_callback self relocs from_node to_node =
    (if from_node = 0 \<or> to_node = 0 then Inr 0
     else
       case item relocs (from_node - 1) of Inl e \<Rightarrow> Inl e | Inr r1 \<Rightarrow>
       case subscript (rl_from_port r1) ''from_port'' of Inl e \<Rightarrow> Inl e | Inr fp \<Rightarrow>
       case item relocs (to_node - 1) of Inl e \<Rightarrow> Inl e | Inr r2 \<Rightarrow>
       case subscript (rl_to_port r2) ''to_port'' of Inl e \<Rightarrow> Inl e | Inr tp \<Rightarrow>
         (case find_route (routes self) fp tp of
            Some route \<Rightarrow> Inr (py_int (distance_km route))
          | None \<Rightarrow> Inr 1000))"

definition demand_callback :: "relocation_data list \<Rightarrow> nat \<Rightarrow> exn + int" where
  "demand_callback relocs from_node =
    (if from_node = 0 then Inr 0
     else
       case item relocs (from_node - 1) of Inl e \<Rightarrow> Inl e | Inr r \<Rightarrow>
         subscript (rl_container_count r) ''container_count'')"

text \<open>
  What the code hands to the routing library: the number of nodes, of vehicles and the
  depot of the index manager, the two callbacks, and the vehicle capacities.
\<close>

record routing_problem =
  num_nodes :: nat
  num_vehicles :: nat
  depot :: nat
  arc_cost :: "nat \<Rightarrow> nat \<Rightarrow> exn + int"
  node_demand :: "nat \<Rightarrow> exn + int"
  vehicle_capacities :: "int list"

text \<open>
  What comes back: a solution, given by its objective value and the nodes the vehicle
  visits from its start up to (not including) its end; no solution; or an exception.
\<close>

datatype routing_outcome = Route_found int "nat list" | No_route | Routing_raises exn

type_synonym routing_solver = "routing_problem \<Rightarrow> routing_outcome"

record routing_output =
  rr_routes :: "relocation_data list list"
  rr_total_cost :: "int option"
  rr_total_distance :: int

datatype routing_result = Routing routing_output | Routing_error string

definition extract_routing_solution ::
  "relocation_data list \<Rightarrow> int \<Rightarrow> nat list \<Rightarrow> exn + routing_output" where
  "extract_routing_solution relocs objective_val visited =
    (case traverse (\<lambda>node. item relocs (node - 1)) [node \<leftarrow> visited. node > 0] of
       Inl e \<Rightarrow> Inl e
     | Inr route \<Rightarrow>
         Inr \<lparr>rr_routes = [route], rr_total_cost = None, rr_total_distance = objective_val\<rparr>)"

definition optimize_vehicle_routing ::
  "routing_solver \<Rightarrow> ContainerOptimizer \<Rightarrow> relocation_data list \<Rightarrow> routing_result" where
  "optimize_vehicle_routing library self relocs =
    (if relocs = [] then
       Routing \<lparr>rr_routes = [], rr_total_cost = Some 0, rr_total_distance = 0\<rparr>
     else
       case library \<lparr>num_nodes = length relocs + 1, num_vehicles = 1, depot = 0,
                     arc_cost = distance_callback self relocs,
                     node_demand = demand_callback relocs,
                     vehicle_capacities = [100]\<rparr> of
         Route_found objective_val visited \<Rightarrow>
           (case extract_routing_solution relocs objective_val visited of
              Inl e \<Rightarrow> Routing_error (str_exn e)
            | Inr out \<Rightarrow> Routing out)
       | No_route \<Rightarrow> Routing_error ''No solution found for vehicle routing''
       | Routing_raises e \<Rightarrow> Routing_error (str_exn e))"

subsection \<open>The command line entry point\<close>

text \<open>
  The outside world of \<open>main\<close>: reading and parsing the input file
  (\<open>json.load(open(path))\<close>, which can raise), the linear solver \<open>CreateSolver\<close> yields,
  and the routing library.
\<close>

record environment =
  read_json :: "string \<Rightarrow> exn + input_data"
  create_solver :: "solver option"
  routing_library :: routing_solver

datatype result =
  Redistribution redistribution_result
| Routes routing_result
| Assignments assignment_result
| Unknown_type string

text \<open>
  A printed line: literal text; \<open>json.dumps({"error": msg})\<close>; or
  \<open>json.dumps(result, indent=2)\<close>.
\<close>

datatype printed = Text string | Error_json string | Result_json result

text \<open>
  What a run of \<open>main\<close> leaves behind: the lines \<open>main\<close> and \<open>load_data\<close> print on
  each stream (the progress and diagnostic lines the optimizers print themselves are left
  out), and the exit status. \<open>sys.exit\<close> raises \<open>SystemExit\<close>, which \<open>except Exception\<close>
  does not catch.
\<close>

record process =
  stdout :: "printed list"
  stderr :: "printed list"
  exit_status :: int

definition main :: "environment \<Rightarrow> string list \<Rightarrow> process" where
  \<open>main env argv =
    (if length argv < 2 then
       \<lparr>stdout = [],
        stderr = [Text ''Usage: python container_optimizer.py <input_json_file>''],
        exit_status = 1\<rparr>
     else
       case read_json env (argv ! 1) of
         Inl e \<Rightarrow> \<lparr>stdout = [], stderr = [Error_json (str_exn e)], exit_status = 1\<rparr>
       | Inr input \<Rightarrow>
          (let loading = load_data init input in
           if \<not> ok loading then
             \<lparr>stdout = [Text ''{"error": "Failed to load input data"}''],
              stderr = map Text (load_stderr loading),
              exit_status = 1\<rparr>
           else
             (let optimizer = loaded loading;
                  optimization_type =
                    get_default (in_optimization_type input) ''redistribution'';
                  result =
                    (if optimization_type = ''redistribution'' then
                       Redistribution
                         (optimize_container_redistribution (create_solver env) optimizer)
                     else if optimization_type = ''routing'' then
                       Routes
                         (optimize_vehicle_routing (routing_library env) optimizer
                            (get_default (in_relocations input) []))
                     else if optimization_type = ''assignment'' then
                       Assignments
                         (optimize_assignment (create_solver env) optimizer
                            (get_default (in_containers input) [])
                            (get_default (in_demands input) []))
                     else Unknown_type (''Unknown optimization type: '' @ optimization_type))
              in \<lparr>stdout = [Result_json result],
                  stderr = map Text (load_stderr loading),
                  exit_status = 0\<rparr>)))\<close>

subsection \<open>A concrete network\<close>

text \<open>
  Two ports, three 20GP containers at port A and one route from A to B; and an assignment
  of values to the variables that moves one container from A to B on day 0.
\<close>

definition port_A :: Port where
  "port_A = \<lparr>name = ''A'', current_empty = 20, capacity = 100,
              demand_forecast = [5, 1, 1, 0, 0, 0, 0], storage_cost_per_day = 1,
              handling_cost = 2, coordinates = (0, 0)\<rparr>"

definition port_B :: Port where
  "port_B = \<lparr>name = ''B'', current_empty = 5, capacity = 100,
              demand_forecast = [- 10, - 10, - 10, - 10, - 10, - 10, - 10],
              storage_cost_per_day = 1, handling_cost = 2, coordinates = (1, 1)\<rparr>"

definition box :: "string \<Rightarrow> Container" where
  "box i = \<lparr>cid = i, ctype = ''20GP'', current_port = ''A'', dwell_time = 1,
            next_booking_port = None, priority = 5\<rparr>"

definition route_AB :: Route where
  "route_AB = \<lparr>from_port = ''A'', to_port = ''B'', distance_km = 120, transport_cost = 10,
                transit_time_hours = 8, capacity_teu = 50\<rparr>"

definition example_network :: ContainerOptimizer where
  "example_network =
    \<lparr>ports = [(''A'', port_A), (''B'', port_B)],
     containers = [box ''c1'', box ''c2'', box ''c3''],
     routes = [route_AB]\<rparr>"

definition example_values :: "var \<Rightarrow> int" where
  "example_values v =
    (case v of
       Flow f g c d \<Rightarrow> if f = ''A'' \<and> g = ''B'' \<and> d = 0 then 1 else 0
     | Storage p c t \<Rightarrow> if p = ''A'' then [2, 1, 0, 0, 0, 0, 0] ! t else 1 + 10 * int t
     | Assign i j \<Rightarrow> 0)"

definition example_solver :: solver where
  "example_solver m = Solved OPTIMAL example_values"

definition example_solution :: solution where
  "example_solution = extract_redistribution_solution example_network example_values"

text \<open>
  Solvers that fail, an input file whose only port entry has no field at all, and a
  demand for the assignment.
\<close>

definition infeasible_solver :: solver where
  "infeasible_solver m = Solved 2 example_values"

definition raising_solver :: solver where
  "raising_solver m = Raises (RuntimeError ''solver failure'')"

definition no_routing :: routing_solver where
  "no_routing p = No_route"

definition empty_port :: port_data where
  "empty_port = \<lparr>pd_name = None, pd_current_empty = None, pd_capacity = None,
                  pd_lstm_forecast = None, pd_storage_cost = None, pd_handling_cost = None,
                  pd_lat = None, pd_lng = None\<rparr>"

definition bad_input :: input_data where
  "bad_input = \<lparr>in_optimization_type = None, in_ports = Some [empty_port],
                 in_containers = None, in_routes = None, in_relocations = None,
                 in_demands = None\<rparr>"

definition bad_file_env :: environment where
  "bad_file_env = \<lparr>read_json = (\<lambda>path. Inr bad_input), create_solver = None,
                    routing_library = no_routing\<rparr>"

definition demand_1 :: demand_data where
  "demand_1 = \<lparr>dd_id = Some ''d1'', dd_port = Some ''B'', dd_required_type = Some ''20GP'',
                dd_priority = Some 3\<rparr>"

text \<open>
  An assignment request on the concrete network: three containers at port A, the third of
  a type outside the compatibility table, and two demands at port B; and values that
  assign container 0 to demand 0 and container 1 to demand 1.
\<close>

definition container_1 :: container_data where
  "container_1 = \<lparr>cd_id = Some ''c1'', cd_type = Some ''20GP'', cd_current_port = Some ''A'',
                   cd_dwell_time = Some 1, cd_next_booking_port = None, cd_priority = Some 5\<rparr>"

definition container_2 :: container_data where
  "container_2 = \<lparr>cd_id = Some ''c2'', cd_type = Some ''40GP'', cd_current_port = Some ''A'',
                   cd_dwell_time = Some 2, cd_next_booking_port = None, cd_priority = Some 5\<rparr>"

definition container_3 :: container_data where
  "container_3 = \<lparr>cd_id = Some ''c3'', cd_type = Some ''45HC'', cd_current_port = Some ''A'',
                   cd_dwell_time = Some 3, cd_next_booking_port = None, cd_priority = Some 5\<rparr>"

definition demand_2 :: demand_data where
  "demand_2 = \<lparr>dd_id = Some ''d2'', dd_port = Some ''B'', dd_required_type = Some ''40HC'',
                dd_priority = Some 1\<rparr>"

definition example_containers :: "container_data list" where
  "example_containers = [container_1, container_2, container_3]"

definition example_demands :: "demand_data list" where
  "example_demands = [demand_1, demand_2]"

definition example_assignment_model :: lp_model where
  "example_assignment_model =
     projr (assignment_model example_network example_containers example_demands)"

definition assign_values :: "var \<Rightarrow> int" where
  "assign_values v = (case v of Assign i j \<Rightarrow> if i = j \<and> i < 2 then 1 else 0 | _ \<Rightarrow> 0)"

definition assign_solver :: solver where
  "assign_solver m = Solved OPTIMAL assign_values"

definition example_assignments :: assignment_output where
  "example_assignments =
     projr (extract_assignment_solution example_network example_assignment_model assign_values
              example_containers example_demands)"

section \<open>Properties of load\_data\<close>

lemma subscript_Inr: "subscript x k = Inr v \<longleftrightarrow> x = Some v"
  by (cases x) auto

lemma subscript_Inl: "subscript x k = Inl e \<longleftrightarrow> x = None \<and> e = KeyError k"
  by (cases x) auto

lemma parse_port_ok: "(\<exists>p. parse_port d = Inr p) \<longleftrightarrow> port_complete d"
  by (auto simp: parse_port_def port_complete_def subscript_Inr subscript_Inl split: sum.splits)

lemma parse_container_ok: "(\<exists>c. parse_container d = Inr c) \<longleftrightarrow> container_complete d"
  by (auto simp: parse_container_def container_complete_def subscript_Inr subscript_Inl
      split: sum.splits)

lemma parse_route_ok: "(\<exists>r. parse_route d = Inr r) \<longleftrightarrow> route_complete d"
  by (auto simp: parse_route_def route_complete_def subscript_Inr subscript_Inl split: sum.splits)

lemma load_ports_ok: "fst (load_ports self ds) = None \<longleftrightarrow> list_all port_complete ds"
proof (induction ds arbitrary: self)
  case Nil
  show ?case by simp
next
  case (Cons d ds)
  show ?case
  proof (cases "parse_port d")
    case (Inl e)
    with parse_port_ok [of d] show ?thesis by auto
  next
    case (Inr p)
    with parse_port_ok [of d] Cons.IH show ?thesis by auto
  qed
qed

lemma load_containers_ok:
  "fst (load_containers self ds) = None \<longleftrightarrow> list_all container_complete ds"
proof (induction ds arbitrary: self)
  case Nil
  show ?case by simp
next
  case (Cons d ds)
  show ?case
  proof (cases "parse_container d")
    case (Inl e)
    with parse_container_ok [of d] show ?thesis by auto
  next
    case (Inr c)
    with parse_container_ok [of d] Cons.IH show ?thesis by auto
  qed
qed

lemma load_routes_ok: "fst (load_routes self ds) = None \<longleftrightarrow> list_all route_complete ds"
proof (induction ds arbitrary: self)
  case Nil
  show ?case by simp
next
  case (Cons d ds)
  show ?case
  proof (cases "parse_route d")
    case (Inl e)
    with parse_route_ok [of d] show ?thesis by auto
  next
    case (Inr r)
    with parse_route_ok [of d] Cons.IH show ?thesis by auto
  qed
qed

lemma load_body_ok: "fst (load_body self data) = None \<longleftrightarrow> entries_complete data"
proof -
  obtain e1 s1 where r1: "load_ports self (get_default (in_ports data) []) = (e1, s1)"
    by (cases "load_ports self (get_default (in_ports data) [])")
  obtain e2 s2 where r2: "load_containers s1 (get_default (in_containers data) []) = (e2, s2)"
    by (cases "load_containers s1 (get_default (in_containers data) [])")
  have p1: "e1 = None \<longleftrightarrow> list_all port_complete (get_default (in_ports data) [])"
    using load_ports_ok [of self "get_default (in_ports data) []"] r1 by simp
  have p2: "e2 = None \<longleftrightarrow> list_all container_complete (get_default (in_containers data) [])"
    using load_containers_ok [of s1 "get_default (in_containers data) []"] r2 by simp
  show ?thesis
    using r1 r2 p1 p2 load_routes_ok [of s2 "get_default (in_routes data) []"]
    by (cases e1; cases e2) (simp_all add: load_body_def entries_complete_def)
qed

lemma load_data_ok: "ok (load_data self data) \<longleftrightarrow> entries_complete data"
proof -
  obtain e s where r: "load_body self data = (e, s)"
    by (cases "load_body self data")
  with load_body_ok [of self data] show ?thesis
    by (cases e) (simp_all add: load_data_def)
qed

text \<open>
  The keys of \<open>ports\<close> stay distinct, as the keys of a dict are: every optimizer that
  \<open>load_data\<close> fills, starting from a new one, satisfies the assumption on \<open>ports\<close> that
  the theorems on the redistribution make.
\<close>

lemma load_ports_dict:
  "distinct (map fst (ports self)) \<Longrightarrow> distinct (map fst (ports (snd (load_ports self ds))))"
proof (induction ds arbitrary: self)
  case Nil
  then show ?case by simp
next
  case (Cons d ds)
  show ?case
  proof (cases "parse_port d")
    case (Inl e)
    with Cons.prems show ?thesis by simp
  next
    case (Inr p)
    have "distinct (map fst (ports (self\<lparr>ports := AList.update (name p) p (ports self)\<rparr>)))"
      using Cons.prems by (simp add: distinct_update)
    from Cons.IH [OF this] Inr show ?thesis by simp
  qed
qed

lemma load_containers_ports: "ports (snd (load_containers self ds)) = ports self"
  by (induction ds arbitrary: self) (auto split: sum.splits)

lemma load_routes_ports: "ports (snd (load_routes self ds)) = ports self"
  by (induction ds arbitrary: self) (auto split: sum.splits)

lemma load_data_dict:
  assumes "distinct (map fst (ports self))"
  shows "distinct (map fst (ports (loaded (load_data self data))))"
proof -
  let ?s1 = "snd (load_ports self (get_default (in_ports data) []))"
  let ?s2 = "snd (load_containers ?s1 (get_default (in_containers data) []))"
  let ?s3 = "snd (load_routes ?s2 (get_default (in_routes data) []))"
  have d1: "distinct (map fst (ports ?s1))"
    using assms by (rule load_ports_dict)
  have d2: "distinct (map fst (ports ?s2))"
    using d1 by (simp add: load_containers_ports)
  have d3: "distinct (map fst (ports ?s3))"
    using d2 by (simp add: load_routes_ports)
  have "loaded (load_data self data) = ?s1 \<or> loaded (load_data self data) = ?s2
      \<or> loaded (load_data self data) = ?s3"
    by (auto simp: load_data_def load_body_def split: prod.splits option.splits)
  with d1 d2 d3 show ?thesis
    by auto
qed

lemma init_dict: "distinct (map fst (ports init))"
  by (simp add: init_def)

text \<open>
  Claim C7. A missing top-level key \<open>ports\<close>, \<open>containers\<close> or \<open>routes\<close> is read as the
  empty collection: the call behaves exactly as if the key were present with an empty
  list, so a missing key is never itself a failure. The flag \<open>load_data\<close> returns is
  \<open>True\<close> exactly when every declared entry has all its required fields; when some
  declared entry lacks one, the \<open>KeyError\<close> raised inside the \<open>try\<close> block is caught and
  the call returns the flag \<open>False\<close> (a value, not an exception).
\<close>

theorem load_data_missing_keys_and_failure_flag:
  "load_data self (data\<lparr>in_ports := None\<rparr>) = load_data self (data\<lparr>in_ports := Some []\<rparr>)
   \<and> load_data self (data\<lparr>in_containers := None\<rparr>)
       = load_data self (data\<lparr>in_containers := Some []\<rparr>)
   \<and> load_data self (data\<lparr>in_routes := None\<rparr>) = load_data self (data\<lparr>in_routes := Some []\<rparr>)
   \<and> (ok (load_data self data) \<longleftrightarrow> entries_complete data)"
proof -
  have same: "load_data self d1 = load_data self d2"
    if "get_default (in_ports d1) [] = get_default (in_ports d2) []"
      and "get_default (in_containers d1) [] = get_default (in_containers d2) []"
      and "get_default (in_routes d1) [] = get_default (in_routes d2) []" for d1 d2
    unfolding load_data_def load_body_def using that by (simp only:)
  have "load_data self (data\<lparr>in_ports := None\<rparr>) = load_data self (data\<lparr>in_ports := Some []\<rparr>)"
    by (rule same) simp_all
  moreover have "load_data self (data\<lparr>in_containers := None\<rparr>)
      = load_data self (data\<lparr>in_containers := Some []\<rparr>)"
    by (rule same) simp_all
  moreover have "load_data self (data\<lparr>in_routes := None\<rparr>)
      = load_data self (data\<lparr>in_routes := Some []\<rparr>)"
    by (rule same) simp_all
  moreover have "ok (load_data self data) \<longleftrightarrow> entries_complete data"
    by (rule load_data_ok)
  ultimately show ?thesis
    by blast
qed

theorem load_data_missing_keys_and_failure_flag_witness:
  "ok (load_data init
        \<lparr>in_optimization_type = None, in_ports = None, in_containers = None, in_routes = None,
         in_relocations = None, in_demands = None\<rparr>)
   \<and> \<not> ok (load_data init
        \<lparr>in_optimization_type = None,
         in_ports = Some [\<lparr>pd_name = None, pd_current_empty = Some 3, pd_capacity = Some 10,
                           pd_lstm_forecast = Some [], pd_storage_cost = Some 1,
                           pd_handling_cost = Some 1, pd_lat = Some 0, pd_lng = Some 0\<rparr>],
         in_containers = None, in_routes = None, in_relocations = None, in_demands = None\<rparr>)"
  using load_data_missing_keys_and_failure_flag
      [THEN conjunct2, THEN conjunct2, THEN conjunct2, of init
        "\<lparr>in_optimization_type = None, in_ports = None, in_containers = None, in_routes = None,
         in_relocations = None, in_demands = None\<rparr>"]
    load_data_missing_keys_and_failure_flag
      [THEN conjunct2, THEN conjunct2, THEN conjunct2, of init
        "\<lparr>in_optimization_type = None,
         in_ports = Some [\<lparr>pd_name = None, pd_current_empty = Some 3, pd_capacity = Some 10,
                           pd_lstm_forecast = Some [], pd_storage_cost = Some 1,
                           pd_handling_cost = Some 1, pd_lat = Some 0, pd_lng = Some 0\<rparr>],
         in_containers = None, in_routes = None, in_relocations = None, in_demands = None\<rparr>"]
  by (simp add: entries_complete_def port_complete_def)

section \<open>Properties of the redistribution model\<close>

lemma sum_list_pick:
  assumes "distinct xs" and "\<And>x. x \<in> set xs \<Longrightarrow> h x = (if x = a then g x else (0::int))"
  shows "sum_list (map h xs) = (if a \<in> set xs then g a else 0)"
  using assms by (induction xs) auto

lemma guarded_as_filter: "concat (map (\<lambda>x. if P x then [h x] else []) xs) = map h (filter P xs)"
  by (induction xs) auto

lemma sum_filter_concat:
  "sum_list (map q (filter P (concat (map f xs)))) = sum_list (map (\<lambda>x. sum_list (map q (filter P (f x)))) xs)"
  by (induction xs) auto

lemma sum_filter_if:
  "sum_list (map q (filter P (if b then ys else []))) = (if b then sum_list (map q (filter P ys)) else (0::int))"
  by simp

lemma sum_if_single:
  "sum_list (map q (if b then [x] else [])) = (if b then q x else (0::int))"
  by simp

lemma sum_guarded:
  "sum_list (map q (filter P (concat (map (\<lambda>d. if G d then [e d] else []) ds)))) =
   sum_list (map (\<lambda>d. if G d \<and> P (e d) then q (e d) else (0::int)) ds)"
  by (induction ds) auto

lemma sum_list_zero: "sum_list (map (\<lambda>x. (0::int)) xs) = 0"
  by (induction xs) auto

lemma sum_pos_part:
  assumes "\<And>x. x \<in> set xs \<Longrightarrow> Q x \<Longrightarrow> 0 \<le> g x"
  shows "sum_list (map (\<lambda>x. if Q x \<and> 0 < g x then g x else (0::int)) xs)
         = sum_list (concat (map (\<lambda>x. if Q x then [g x] else []) xs))"
  using assms by (induction xs) (auto simp: order.order_iff_strict)

lemma returned_inflow_nested:
  "returned_inflow (extract_redistribution_solution self s) p c t =
   (\<Sum>f\<leftarrow>port_names self. \<Sum>t'\<leftarrow>port_names self. if f \<noteq> t' then
      (\<Sum>c'\<leftarrow>container_types self. \<Sum>d\<leftarrow>[0..<time_horizon].
         if 0 < s (Flow f t' c' d) then if t' = p \<and> c' = c \<and> d = t then s (Flow f p c t) else 0 else 0)
     else 0)"
  unfolding returned_inflow_def extract_redistribution_solution_def Let_def extract_relocations_def
  apply (simp only: solution.simps guarded_as_filter [of _ quantity])
  apply (simp only: sum_filter_concat sum_filter_if sum_guarded)
  apply (simp add: sum_if_single cong: if_cong)
  done

lemma returned_outflow_nested:
  "returned_outflow (extract_redistribution_solution self s) p c t =
   (\<Sum>f\<leftarrow>port_names self. \<Sum>t'\<leftarrow>port_names self. if f \<noteq> t' then
      (\<Sum>c'\<leftarrow>container_types self. \<Sum>d\<leftarrow>[0..<time_horizon].
         if 0 < s (Flow f t' c' d) then if f = p \<and> c' = c \<and> d = t then s (Flow p t' c t) else 0 else 0)
     else 0)"
  unfolding returned_outflow_def extract_redistribution_solution_def Let_def extract_relocations_def
  apply (simp only: solution.simps guarded_as_filter [of _ quantity])
  apply (simp only: sum_filter_concat sum_filter_if sum_guarded)
  apply (simp add: sum_if_single cong: if_cong)
  done


lemma returned_inflow_extract:
  assumes dp: "distinct (port_names self)" and p: "p \<in> set (port_names self)"
    and c: "c \<in> set (container_types self)" and t: "t < time_horizon"
    and nn: "\<And>f. f \<in> set (port_names self) \<Longrightarrow> f \<noteq> p \<Longrightarrow> 0 \<le> s (Flow f p c t)"
  shows "returned_inflow (extract_redistribution_solution self s) p c t =
         sum_list [s (Flow other p c t). other \<leftarrow> port_names self, other \<noteq> p]"
proof -
  have dc: "distinct (container_types self)"
    by (simp add: container_types_def)
  have days: "\<And>f t' c'. (\<Sum>d\<leftarrow>[0..<time_horizon].
         if 0 < s (Flow f t' c' d) then if t' = p \<and> c' = c \<and> d = t then s (Flow f p c t) else 0 else 0)
       = (if t' = p \<and> c' = c \<and> 0 < s (Flow f p c t) then s (Flow f p c t) else 0)"
    using t
    by (subst sum_list_pick [where a = t and g = "\<lambda>d. if t' = p \<and> c' = c \<and> 0 < s (Flow f p c t) then s (Flow f p c t) else 0" for f t' c']) auto
  have types: "\<And>f t'. (\<Sum>c'\<leftarrow>container_types self.
         if t' = p \<and> c' = c \<and> 0 < s (Flow f p c t) then s (Flow f p c t) else 0)
       = (if t' = p \<and> 0 < s (Flow f p c t) then s (Flow f p c t) else 0)"
    using c dc
    by (subst sum_list_pick [where a = c and g = "\<lambda>c'. if t' = p \<and> 0 < s (Flow f p c t) then s (Flow f p c t) else 0" for f t']) auto
  have tos: "\<And>f. (\<Sum>t'\<leftarrow>port_names self. if f \<noteq> t' then
         (if t' = p \<and> 0 < s (Flow f p c t) then s (Flow f p c t) else 0) else 0)
       = (if f \<noteq> p \<and> 0 < s (Flow f p c t) then s (Flow f p c t) else 0)"
    using p dp
    by (subst sum_list_pick [where a = p and g = "\<lambda>t'. if f \<noteq> p \<and> 0 < s (Flow f p c t) then s (Flow f p c t) else 0" for f]) auto
  have last: "(\<Sum>f\<leftarrow>port_names self. if f \<noteq> p \<and> 0 < s (Flow f p c t) then s (Flow f p c t) else 0)
       = sum_list [s (Flow other p c t). other \<leftarrow> port_names self, other \<noteq> p]"
    using nn by (intro sum_pos_part) auto
  show ?thesis
    by (simp only: returned_inflow_nested days types tos) (rule last)
qed

lemma returned_outflow_extract:
  assumes dp: "distinct (port_names self)" and p: "p \<in> set (port_names self)"
    and c: "c \<in> set (container_types self)" and t: "t < time_horizon"
    and nn: "\<And>f. f \<in> set (port_names self) \<Longrightarrow> f \<noteq> p \<Longrightarrow> 0 \<le> s (Flow p f c t)"
  shows "returned_outflow (extract_redistribution_solution self s) p c t =
         sum_list [s (Flow p other c t). other \<leftarrow> port_names self, other \<noteq> p]"
proof -
  have dc: "distinct (container_types self)"
    by (simp add: container_types_def)
  have days: "\<And>f t' c'. (\<Sum>d\<leftarrow>[0..<time_horizon].
         if 0 < s (Flow f t' c' d) then if f = p \<and> c' = c \<and> d = t then s (Flow p t' c t) else 0 else 0)
       = (if f = p \<and> c' = c \<and> 0 < s (Flow p t' c t) then s (Flow p t' c t) else 0)"
    using t
    by (subst sum_list_pick [where a = t and g = "\<lambda>d. if f = p \<and> c' = c \<and> 0 < s (Flow p t' c t) then s (Flow p t' c t) else 0" for f t' c']) auto
  have types: "\<And>f t'. (\<Sum>c'\<leftarrow>container_types self.
         if f = p \<and> c' = c \<and> 0 < s (Flow p t' c t) then s (Flow p t' c t) else 0)
       = (if f = p \<and> 0 < s (Flow p t' c t) then s (Flow p t' c t) else 0)"
    using c dc
    by (subst sum_list_pick [where a = c and g = "\<lambda>c'. if f = p \<and> 0 < s (Flow p t' c t) then s (Flow p t' c t) else 0" for f t']) auto
  have tos: "\<And>f. (\<Sum>t'\<leftarrow>port_names self. if f \<noteq> t' then
         (if f = p \<and> 0 < s (Flow p t' c t) then s (Flow p t' c t) else 0) else 0)
       = (if f = p then (\<Sum>t'\<leftarrow>port_names self. if t' \<noteq> p \<and> 0 < s (Flow p t' c t) then s (Flow p t' c t) else 0) else 0)"
  proof -
    fix f
    show "(\<Sum>t'\<leftarrow>port_names self. if f \<noteq> t' then
         (if f = p \<and> 0 < s (Flow p t' c t) then s (Flow p t' c t) else 0) else 0)
       = (if f = p then (\<Sum>t'\<leftarrow>port_names self. if t' \<noteq> p \<and> 0 < s (Flow p t' c t) then s (Flow p t' c t) else 0) else 0)"
    proof (cases "f = p")
      case True
      then show ?thesis
        by (auto intro!: arg_cong [where f = sum_list])
    next
      case False
      then show ?thesis
        by (simp add: sum_list_zero cong: if_cong)
    qed
  qed
  have froms: "(\<Sum>f\<leftarrow>port_names self. if f = p then (\<Sum>t'\<leftarrow>port_names self. if t' \<noteq> p \<and> 0 < s (Flow p t' c t) then s (Flow p t' c t) else 0) else 0)
      = (\<Sum>t'\<leftarrow>port_names self. if t' \<noteq> p \<and> 0 < s (Flow p t' c t) then s (Flow p t' c t) else 0)"
    using p dp
    by (subst sum_list_pick [where a = p and g = "\<lambda>f. (\<Sum>t'\<leftarrow>port_names self. if t' \<noteq> p \<and> 0 < s (Flow p t' c t) then s (Flow p t' c t) else 0)"]) auto
  have last: "(\<Sum>f\<leftarrow>port_names self. if f \<noteq> p \<and> 0 < s (Flow p f c t) then s (Flow p f c t) else 0)
       = sum_list [s (Flow p other c t). other \<leftarrow> port_names self, other \<noteq> p]"
    using nn by (intro sum_pos_part) auto
  show ?thesis
    by (simp only: returned_outflow_nested days types tos froms) (rule last)
qed


lemma map_of_tabulate:
  "map_of (map (\<lambda>k. (k, f k)) xs) k = (if k \<in> set xs then Some (f k) else None)"
  by (induction xs) auto

lemma value_inflow:
  "value_of s (inflow self p c t) = sum_list [s (Flow other p c t). other \<leftarrow> port_names self, other \<noteq> p]"
  by (simp add: inflow_def map_concat comp_def if_distrib cong: if_cong)

lemma planned_storage_extract:
  assumes "p \<in> set (port_names self)" "c \<in> set (container_types self)" "t < time_horizon"
  shows "planned_storage (extract_redistribution_solution self s) p c t = Some (s (Storage p c t))"
  using assms
  by (simp add: planned_storage_def extract_redistribution_solution_def Let_def extract_storage_plan_def map_of_tabulate)

lemma conservation_holds:
  assumes "feasible (redistribution_model self) s" "(p, po) \<in> set (ports self)"
    "c \<in> set (container_types self)" "t < time_horizon"
  shows "holds s (conservation self p po c t)"
proof -
  have "conservation self p po c t \<in> set (flow_conservation_constraints self)"
    using assms(2-4) by (force simp: flow_conservation_constraints_def)
  then show ?thesis
    using assms(1) by (simp add: feasible_def redistribution_model_def list_all_iff)
qed

lemma feasible_holds: "feasible m s \<Longrightarrow> c \<in> set (constraints m) \<Longrightarrow> holds s c"
  by (simp add: feasible_def list_all_iff)


lemma flow_nonneg:
  assumes "feasible (redistribution_model self) s" "f \<in> set (port_names self)"
    "g \<in> set (port_names self)" "f \<noteq> g" "c \<in> set (container_types self)" "d < time_horizon"
  shows "0 \<le> s (Flow f g c d)"
proof -
  have "(Flow f g c d, 0, 1000) \<in> set (flow_vars self)"
    using assms(2-6) by (force simp: flow_vars_def)
  then have "within_bounds s (Flow f g c d, 0, 1000)"
    using assms(1) by (auto simp: feasible_def redistribution_model_def list_all_iff)
  then show ?thesis
    by (simp add: within_bounds_def)
qed



lemma value_outflow:
  "value_of s (outflow self p c t) = sum_list [s (Flow p other c t). other \<leftarrow> port_names self, other \<noteq> p]"
  by (simp add: outflow_def map_concat comp_def if_distrib cong: if_cong)

lemma optimal_result:
  assumes "optimize_container_redistribution (Some solver) self = Solution sol"
    and "solver_sound solver (redistribution_model self)"
  obtains s where "sol = extract_redistribution_solution self s"
    and "feasible (redistribution_model self) s"
  using assms
  by (auto simp: optimize_container_redistribution_def solver_sound_def
      split: solve_outcome.splits if_splits)

text \<open>The concrete network: the values are feasible, so the example solver is sound on it.\<close>

lemma upt7: "[0..<7] = [0, 1, 2, 3, 4, 5, 6]"
  by (simp add: upt_rec)

lemma example_feasible: "feasible (redistribution_model example_network) example_values"
  by (simp add: feasible_def redistribution_model_def flow_vars_def storage_vars_def
      flow_conservation_constraints_def port_capacity_constraints_def route_capacity_constraints_def
      conservation_def inflow_def outflow_def current_inventory_def lstm_demand_def
      route_capacity_def find_route_def
      port_names_def container_types_def time_horizon_def example_network_def
      example_values_def within_bounds_def port_A_def port_B_def box_def route_AB_def upt7)

lemma example_optimal:
  "optimize_container_redistribution (Some example_solver) example_network = Solution example_solution"
  by (simp add: optimize_container_redistribution_def example_solver_def example_solution_def)

lemma example_sound: "solver_sound example_solver (redistribution_model example_network)"
  by (simp add: solver_sound_def example_solver_def example_feasible)

lemma example_dict: "distinct (map fst (ports example_network))"
  by (simp add: example_network_def)

lemma example_port_A: "(''A'', port_A) \<in> set (ports example_network)"
  by (simp add: example_network_def)

lemma example_type: "''20GP'' \<in> set (container_types example_network)"
  by (simp add: example_network_def container_types_def box_def)


text \<open>
  Claim C1. In every solution returned with status optimal, for every port, every container
  type and every day index \<open>t < 7\<close>: on day \<open>0\<close> the planned storage is the number of
  loaded containers of that type at that port plus the returned inflow minus the returned
  outflow of day \<open>0\<close>, with no demand subtracted; on a day \<open>t > 0\<close> it is the planned
  storage of day \<open>t - 1\<close> plus the returned inflow minus the returned outflow of day \<open>t\<close>
  minus the demand used for day \<open>t\<close>, which is \<open>demand_forecast[t]\<close> whenever the forecast
  has an entry \<open>t\<close>. The inflow and outflow are the sums of the quantities of the
  returned relocations into and out of the port for that type and day. The assumptions are
  the solver's contract on the model built (\<open>solver_sound\<close>) and that \<open>ports\<close> is a dict
  (distinct keys).
\<close>

theorem flow_conservation:
  assumes opt: "optimize_container_redistribution (Some solver) self = Solution sol"
    and sound: "solver_sound solver (redistribution_model self)"
    and dict: "distinct (map fst (ports self))"
    and port: "(p, po) \<in> set (ports self)"
    and type: "c \<in> set (container_types self)"
    and day: "t < 7"
  shows "(t = 0 \<longrightarrow> planned_storage sol p c t =
            Some (current_inventory self p c + returned_inflow sol p c t - returned_outflow sol p c t))
       \<and> (0 < t \<longrightarrow> (\<exists>prev. planned_storage sol p c (t - 1) = Some prev \<and>
            planned_storage sol p c t =
              Some (prev + returned_inflow sol p c t - returned_outflow sol p c t - lstm_demand po t)))
       \<and> (t < length (demand_forecast po) \<longrightarrow> lstm_demand po t = demand_forecast po ! t)"
proof -
  from opt sound obtain s where sol: "sol = extract_redistribution_solution self s"
    and feas: "feasible (redistribution_model self) s"
    by (rule optimal_result)
  have dp: "distinct (port_names self)"
    using dict by (simp add: port_names_def)
  have p: "p \<in> set (port_names self)"
    using port by (force simp: port_names_def)
  have t: "t < time_horizon"
    using day by (simp add: time_horizon_def)
  have inflow_eq: "returned_inflow sol p c t = value_of s (inflow self p c t)"
    unfolding sol value_inflow
    using dp p type t flow_nonneg [OF feas] by (intro returned_inflow_extract) auto
  have outflow_eq: "returned_outflow sol p c t = value_of s (outflow self p c t)"
    unfolding sol value_outflow
    using dp p type t flow_nonneg [OF feas] by (intro returned_outflow_extract) auto
  have st: "planned_storage sol p c t = Some (s (Storage p c t))"
    unfolding sol using p type t by (rule planned_storage_extract)
  have h: "holds s (conservation self p po c t)"
    using feas port type t by (rule conservation_holds)
  have first: "planned_storage sol p c t =
      Some (current_inventory self p c + returned_inflow sol p c t - returned_outflow sol p c t)"
    if "t = 0"
    using h that st inflow_eq outflow_eq by (simp add: conservation_def)
  have later: "\<exists>prev. planned_storage sol p c (t - 1) = Some prev \<and>
      planned_storage sol p c t =
        Some (prev + returned_inflow sol p c t - returned_outflow sol p c t - lstm_demand po t)"
    if "0 < t"
  proof -
    have "t - 1 < time_horizon"
      using t by simp
    with p type have "planned_storage sol p c (t - 1) = Some (s (Storage p c (t - 1)))"
      unfolding sol by (rule planned_storage_extract)
    with h that st inflow_eq outflow_eq show ?thesis
      by (simp add: conservation_def)
  qed
  show ?thesis
    using first later by (simp add: lstm_demand_def)
qed

theorem flow_conservation_witness:
  "planned_storage example_solution ''A'' ''20GP'' 0 =
     Some (current_inventory example_network ''A'' ''20GP''
           + returned_inflow example_solution ''A'' ''20GP'' 0
           - returned_outflow example_solution ''A'' ''20GP'' 0)
   \<and> (\<exists>prev. planned_storage example_solution ''A'' ''20GP'' 0 = Some prev \<and>
         planned_storage example_solution ''A'' ''20GP'' 1 =
           Some (prev + returned_inflow example_solution ''A'' ''20GP'' 1
                 - returned_outflow example_solution ''A'' ''20GP'' 1 - demand_forecast port_A ! 1))"
proof -
  have d0: "(0::nat) < 7" and d1: "(1::nat) < 7"
    by simp_all
  show ?thesis
    using flow_conservation [OF example_optimal example_sound example_dict example_port_A
        example_type d0]
      flow_conservation [OF example_optimal example_sound example_dict example_port_A
        example_type d1]
    by (simp add: port_A_def)
qed




section \<open>Failure of the redistribution\<close>

text \<open>
  Claim C3, as stated, fails when the solver is unavailable: the method then returns the
  error message alone, with no fallback solution.
\<close>

theorem solver_unavailable_no_fallback:
  "\<not> (\<exists>msg fb. optimize_container_redistribution None example_network = Error msg (Some fb))"
  by (simp add: optimize_container_redistribution_def)

text \<open>
  Claim C3, amended. When the solve ends with a status other than optimal, or the solver
  library raises an exception, the method returns an error message together with the
  fallback solution, whose relocations list is empty and whose status is \<open>fallback\<close>
  (which is not \<open>optimal\<close>). When the solver is unavailable it returns only the error
  message \<open>SCIP solver not available\<close>, with no fallback solution. In none of these cases
  is the returned value a \<open>Solution\<close>.
\<close>

theorem failure_returns_error:
  "optimize_container_redistribution None self = Error ''SCIP solver not available'' None
   \<and> (solver (redistribution_model self) = Solved st s \<and> st \<noteq> OPTIMAL \<longrightarrow>
        optimize_container_redistribution (Some solver) self =
          Error (''Optimization failed with status: '' @ str_nat st)
                (Some create_fallback_solution))
   \<and> (solver (redistribution_model self) = Raises e \<longrightarrow>
        optimize_container_redistribution (Some solver) self =
          Error (str_exn e) (Some create_fallback_solution))
   \<and> fb_status create_fallback_solution = ''fallback''
   \<and> fb_relocations create_fallback_solution = []
   \<and> fb_status create_fallback_solution \<noteq> ''optimal''"
  by (simp add: optimize_container_redistribution_def create_fallback_solution_def)

theorem failure_returns_error_witness:
  "optimize_container_redistribution (Some infeasible_solver) example_network =
     Error (''Optimization failed with status: '' @ str_nat 2) (Some create_fallback_solution)
   \<and> optimize_container_redistribution (Some raising_solver) example_network =
     Error ''solver failure'' (Some create_fallback_solution)"
proof -
  have a: "infeasible_solver (redistribution_model example_network) = Solved 2 example_values
           \<and> 2 \<noteq> OPTIMAL"
    by (simp add: infeasible_solver_def OPTIMAL_def)
  have b: "raising_solver (redistribution_model example_network)
           = Raises (RuntimeError ''solver failure'')"
    by (simp add: raising_solver_def)
  show ?thesis
    using a b
      failure_returns_error [of example_network infeasible_solver 2 example_values
        "RuntimeError ''solver failure''"]
      failure_returns_error [of example_network raising_solver 2 example_values
        "RuntimeError ''solver failure''"]
    by simp
qed

section \<open>Properties of the assignment model\<close>

lemma traverse_Inr: "traverse f xs = Inr ys \<longleftrightarrow> list_all2 (\<lambda>x y. f x = Inr y) xs ys"
proof (induction xs arbitrary: ys)
  case Nil
  show ?case by auto
next
  case (Cons x xs)
  show ?case
  proof (cases "f x")
    case (Inl e)
    then show ?thesis by (auto simp: list_all2_Cons1)
  next
    case (Inr y)
    then show ?thesis
      using Cons.IH by (cases "traverse f xs") (auto simp: list_all2_Cons1)
  qed
qed

lemma indexed_set: "(i, x) \<in> set (indexed xs) \<longleftrightarrow> i < length xs \<and> x = xs ! i"
proof
  assume "(i, x) \<in> set (indexed xs)"
  then show "i < length xs \<and> x = xs ! i"
    by (auto simp: indexed_def in_set_zip)
next
  assume "i < length xs \<and> x = xs ! i"
  then have "[0..<length xs] ! i = i \<and> xs ! i = x \<and> i < length xs"
    by simp
  then show "(i, x) \<in> set (indexed xs)"
    unfolding indexed_def in_set_zip by auto
qed

lemma indexed_distinct: "distinct (indexed xs)"
  by (simp add: indexed_def distinct_zipI1)

lemma pairs_set:
  "((i, c), (j, d)) \<in> set (pairs cs ds) \<longleftrightarrow>
     i < length cs \<and> c = cs ! i \<and> j < length ds \<and> d = ds ! j"
  by (auto simp: pairs_def indexed_set)

lemma pairs_distinct: "distinct (pairs cs ds)"
  by (simp add: pairs_def distinct_product indexed_distinct)

lemma assigned_iff: "assigned s ((i, c), (j, d)) \<longleftrightarrow> 1 \<le> s (Assign i j)"
  by (auto simp: assigned_def)

lemma two_terms_le_sum:
  fixes g :: "nat \<Rightarrow> int"
  assumes "\<And>j. j < n \<Longrightarrow> 0 \<le> g j" "a < n" "b < n" "a \<noteq> b"
  shows "g a + g b \<le> sum_list (map g [0..<n])"
proof -
  have "sum_list (map g [0..<n]) = sum g {0..<n}"
    by (simp add: sum_list_distinct_conv_sum_set)
  moreover have "sum g {a, b} \<le> sum g {0..<n}"
    using assms by (intro sum_mono2) auto
  ultimately show ?thesis
    using assms(4) by simp
qed

lemma feasible_bounds: "feasible m s \<Longrightarrow> b \<in> set (variables m) \<Longrightarrow> within_bounds s b"
  by (simp add: feasible_def list_all_iff)

lemma assignment_model_parts:
  assumes "assignment_model self cs ds = Inr m"
  obtains forced where "variables m = assign_vars cs ds"
    and "traverse (objective_term self) (pairs cs ds) = Inr (objective m)"
    and "traverse compatibility_constraint (pairs cs ds) = Inr forced"
    and "constraints m = container_constraints cs ds @ demand_constraints cs ds @ concat forced"
  using assms by (auto simp: assignment_model_def split: sum.splits)

lemma assign_bounds:
  assumes "assignment_model self cs ds = Inr m" "feasible m s" "i < length cs" "j < length ds"
  shows "0 \<le> s (Assign i j) \<and> s (Assign i j) \<le> 1"
proof -
  from assms(1) have "variables m = assign_vars cs ds"
    by (rule assignment_model_parts)
  then have "(Assign i j, 0, 1) \<in> set (variables m)"
    using assms(3,4) by (force simp: assign_vars_def)
  from feasible_bounds [OF assms(2) this] show ?thesis
    by (simp add: within_bounds_def)
qed

lemma container_row:
  assumes "assignment_model self cs ds = Inr m" "feasible m s" "i < length cs"
  shows "sum_list (map (\<lambda>j. s (Assign i j)) [0..<length ds]) \<le> 1"
proof -
  from assms(1) obtain forced where
    "constraints m = container_constraints cs ds @ demand_constraints cs ds @ concat forced"
    by (rule assignment_model_parts)
  then have "CLe (LSum [LVar (Assign i j). j \<leftarrow> [0..<length ds]]) (LConst 1) \<in> set (constraints m)"
    using assms(3) by (auto simp: container_constraints_def)
  from feasible_holds [OF assms(2) this] show ?thesis
    by (simp add: comp_def)
qed

lemma demand_column:
  assumes "assignment_model self cs ds = Inr m" "feasible m s" "j < length ds"
  shows "sum_list (map (\<lambda>i. s (Assign i j)) [0..<length cs]) \<le> 1"
proof -
  from assms(1) obtain forced where
    "constraints m = container_constraints cs ds @ demand_constraints cs ds @ concat forced"
    by (rule assignment_model_parts)
  then have "CLe (LSum [LVar (Assign i j). i \<leftarrow> [0..<length cs]]) (LConst 1) \<in> set (constraints m)"
    using assms(3) by (auto simp: demand_constraints_def)
  from feasible_holds [OF assms(2) this] show ?thesis
    by (simp add: comp_def)
qed

lemma one_demand_per_container:
  assumes m: "assignment_model self cs ds = Inr m" and f: "feasible m s" and i: "i < length cs"
    and a: "a < length ds" "1 \<le> s (Assign i a)" and b: "b < length ds" "1 \<le> s (Assign i b)"
  shows "a = b"
proof (rule ccontr)
  assume "a \<noteq> b"
  with a(1) b(1) assign_bounds [OF m f i]
  have "s (Assign i a) + s (Assign i b) \<le> sum_list (map (\<lambda>j. s (Assign i j)) [0..<length ds])"
    by (intro two_terms_le_sum) auto
  with container_row [OF m f i] a(2) b(2) show False
    by simp
qed

lemma one_container_per_demand:
  assumes m: "assignment_model self cs ds = Inr m" and f: "feasible m s" and j: "j < length ds"
    and a: "a < length cs" "1 \<le> s (Assign a j)" and b: "b < length cs" "1 \<le> s (Assign b j)"
  shows "a = b"
proof (rule ccontr)
  assume "a \<noteq> b"
  with a(1) b(1) assign_bounds [OF m f _ j]
  have "s (Assign a j) + s (Assign b j) \<le> sum_list (map (\<lambda>i. s (Assign i j)) [0..<length cs])"
    by (intro two_terms_le_sum) auto
  with demand_column [OF m f j] a(2) b(2) show False
    by simp
qed

lemma list_all2_pick:
  assumes "list_all2 P xs ys" "x \<in> set xs"
  obtains y where "y \<in> set ys" "P x y"
proof -
  from assms(2) obtain n where n: "n < length xs" "xs ! n = x"
    by (auto simp: in_set_conv_nth)
  from assms(1) n(1) have "P (xs ! n) (ys ! n)" and "n < length ys"
    by (auto dest: list_all2_nthD list_all2_lengthD)
  then have "ys ! n \<in> set ys" and "P x (ys ! n)"
    using n(2) by simp_all
  then show ?thesis
    by (rule that)
qed

lemma forced_zero:
  assumes m: "assignment_model self cs ds = Inr m" and f: "feasible m s"
    and i: "i < length cs" and j: "j < length ds"
    and ct: "cd_type (cs ! i) = Some ct" and rt: "dd_required_type (ds ! j) = Some rt"
    and inc: "\<not> is_compatible ct rt"
  shows "CEq (LVar (Assign i j)) (LConst 0) \<in> set (constraints m) \<and> s (Assign i j) = 0"
proof -
  from m obtain forced where
    tr: "traverse compatibility_constraint (pairs cs ds) = Inr forced"
    and cons: "constraints m = container_constraints cs ds @ demand_constraints cs ds @ concat forced"
    by (rule assignment_model_parts)
  have "((i, cs ! i), (j, ds ! j)) \<in> set (pairs cs ds)"
    using i j by (simp add: pairs_set)
  with tr obtain l where l: "l \<in> set forced"
    "compatibility_constraint ((i, cs ! i), (j, ds ! j)) = Inr l"
    unfolding traverse_Inr by (rule list_all2_pick)
  from l(2) ct rt inc have "l = [CEq (LVar (Assign i j)) (LConst 0)]"
    by (simp add: compatibility_constraint_def)
  with l(1) have "CEq (LVar (Assign i j)) (LConst 0) \<in> set (concat forced)"
    by force
  with cons have mem: "CEq (LVar (Assign i j)) (LConst 0) \<in> set (constraints m)"
    by simp
  from feasible_holds [OF f this] mem show ?thesis
    by simp
qed

lemma model_types_present:
  assumes m: "assignment_model self cs ds = Inr m" and i: "i < length cs" and j: "j < length ds"
  shows "\<exists>ct rt. cd_type (cs ! i) = Some ct \<and> dd_required_type (ds ! j) = Some rt"
proof -
  from m obtain forced where
    tr: "traverse compatibility_constraint (pairs cs ds) = Inr forced"
    by (rule assignment_model_parts)
  have "((i, cs ! i), (j, ds ! j)) \<in> set (pairs cs ds)"
    using i j by (simp add: pairs_set)
  with tr obtain l where "compatibility_constraint ((i, cs ! i), (j, ds ! j)) = Inr l"
    unfolding traverse_Inr by (rule list_all2_pick)
  then show ?thesis
    by (auto simp: compatibility_constraint_def subscript_Inr split: sum.splits)
qed

lemma chosen_compatible:
  assumes m: "assignment_model self cs ds = Inr m" and f: "feasible m s"
    and p: "p \<in> set (assigned_pairs s cs ds)"
  shows "compatible_pair p"
proof -
  obtain i c j d where pe: "p = ((i, c), (j, d))"
    by (metis prod.exhaust)
  with p have mem: "i < length cs" "c = cs ! i" "j < length ds" "d = ds ! j"
    and one: "1 \<le> s (Assign i j)"
    by (auto simp: assigned_pairs_def pairs_set assigned_iff)
  from model_types_present [OF m mem(1) mem(3)] obtain ct rt
    where t: "cd_type (cs ! i) = Some ct" "dd_required_type (ds ! j) = Some rt"
    by blast
  have "is_compatible ct rt"
  proof (rule ccontr)
    assume "\<not> is_compatible ct rt"
    from forced_zero [OF m f mem(1) mem(3) t this] one show False
      by simp
  qed
  with t mem pe show ?thesis
    by (simp add: compatible_pair_def)
qed

lemma chosen_distinct_containers:
  assumes m: "assignment_model self cs ds = Inr m" and f: "feasible m s"
  shows "distinct (map container_index (assigned_pairs s cs ds))"
proof -
  have "distinct (assigned_pairs s cs ds)"
    by (simp add: assigned_pairs_def pairs_distinct)
  moreover have "inj_on container_index (set (assigned_pairs s cs ds))"
  proof (rule inj_onI)
    fix p q
    assume p: "p \<in> set (assigned_pairs s cs ds)" and q: "q \<in> set (assigned_pairs s cs ds)"
      and eq: "container_index p = container_index q"
    obtain i c j d where pe: "p = ((i, c), (j, d))"
      by (metis prod.exhaust)
    obtain i' c' j' d' where qe: "q = ((i', c'), (j', d'))"
      by (metis prod.exhaust)
    from p pe have P: "i < length cs" "c = cs ! i" "j < length ds" "d = ds ! j" "1 \<le> s (Assign i j)"
      by (auto simp: assigned_pairs_def pairs_set assigned_iff)
    from q qe have Q: "i' < length cs" "c' = cs ! i'" "j' < length ds" "d' = ds ! j'"
      "1 \<le> s (Assign i' j')"
      by (auto simp: assigned_pairs_def pairs_set assigned_iff)
    from eq pe qe have ii: "i = i'"
      by (simp add: container_index_def)
    with one_demand_per_container [OF m f P(1) P(3) P(5) Q(3)] Q(5) have "j = j'"
      by simp
    with ii P Q pe qe show "p = q"
      by simp
  qed
  ultimately show ?thesis
    by (simp add: distinct_map)
qed

lemma chosen_distinct_demands:
  assumes m: "assignment_model self cs ds = Inr m" and f: "feasible m s"
  shows "distinct (map demand_index (assigned_pairs s cs ds))"
proof -
  have "distinct (assigned_pairs s cs ds)"
    by (simp add: assigned_pairs_def pairs_distinct)
  moreover have "inj_on demand_index (set (assigned_pairs s cs ds))"
  proof (rule inj_onI)
    fix p q
    assume p: "p \<in> set (assigned_pairs s cs ds)" and q: "q \<in> set (assigned_pairs s cs ds)"
      and eq: "demand_index p = demand_index q"
    obtain i c j d where pe: "p = ((i, c), (j, d))"
      by (metis prod.exhaust)
    obtain i' c' j' d' where qe: "q = ((i', c'), (j', d'))"
      by (metis prod.exhaust)
    from p pe have P: "i < length cs" "c = cs ! i" "j < length ds" "d = ds ! j" "1 \<le> s (Assign i j)"
      by (auto simp: assigned_pairs_def pairs_set assigned_iff)
    from q qe have Q: "i' < length cs" "c' = cs ! i'" "j' < length ds" "d' = ds ! j'"
      "1 \<le> s (Assign i' j')"
      by (auto simp: assigned_pairs_def pairs_set assigned_iff)
    from eq pe qe have jj: "j = j'"
      by (simp add: demand_index_def)
    with one_container_per_demand [OF m f P(3) P(1) P(5) Q(1)] Q(5) have "i = i'"
      by simp
    with jj P Q pe qe show "p = q"
      by simp
  qed
  ultimately show ?thesis
    by (simp add: distinct_map)
qed

lemma is_compatible_table:
  "is_compatible ''20GP'' rt \<longleftrightarrow> rt = ''20GP''"
  "is_compatible ''40GP'' rt \<longleftrightarrow> rt = ''40GP'' \<or> rt = ''40HC''"
  "is_compatible ''40HC'' rt \<longleftrightarrow> rt = ''40HC'' \<or> rt = ''40GP''"
  by (auto simp: is_compatible_def compatibility_map_def)

lemma is_compatible_unknown:
  "ct \<noteq> ''20GP'' \<Longrightarrow> ct \<noteq> ''40GP'' \<Longrightarrow> ct \<noteq> ''40HC'' \<Longrightarrow> \<not> is_compatible ct rt"
  by (simp add: is_compatible_def compatibility_map_def)

lemma optimal_assignment_result:
  assumes "optimize_assignment (Some solver) self cs ds = Assignment out"
    and "cs \<noteq> []" "ds \<noteq> []" and "assignment_model self cs ds = Inr m"
  obtains s where "solver m = Solved OPTIMAL s"
    and "extract_assignment_solution self m s cs ds = Inr out"
  using assms
  by (auto simp: optimize_assignment_def split: sum.splits solve_outcome.splits if_splits)

lemma extract_assignment_parts:
  assumes "extract_assignment_solution self m s cs ds = Inr out"
  shows "list_all2 (\<lambda>p a. make_assignment self p = Inr a) (assigned_pairs s cs ds) (assignments out)"
    and "unassigned_containers out =
          [c. (i, c) \<leftarrow> indexed cs, i \<notin> set (map container_index (assigned_pairs s cs ds))]"
  using assms
  by (auto simp: extract_assignment_solution_def Let_def traverse_Inr [symmetric] split: sum.splits)

lemma make_assignment_cost:
  assumes "make_assignment self p = Inr a"
  shows "calculate_assignment_cost self (snd (fst p)) (snd (snd p)) = Inr (a_cost a)
       \<and> cd_id (snd (fst p)) = Some (a_container_id a)
       \<and> dd_id (snd (snd p)) = Some (a_demand_id a)"
  using assms
  by (cases p) (auto simp: make_assignment_def subscript_Inr split: sum.splits prod.splits)


text \<open>The concrete assignment request, evaluated.\<close>

lemmas example_defs =
  example_network_def example_containers_def example_demands_def container_1_def
  container_2_def container_3_def demand_1_def demand_2_def route_AB_def port_A_def port_B_def
  box_def

lemma example_pairs:
  "pairs example_containers example_demands =
    [((0, container_1), (0, demand_1)), ((0, container_1), (1, demand_2)),
     ((1, container_2), (0, demand_1)), ((1, container_2), (1, demand_2)),
     ((2, container_3), (0, demand_1)), ((2, container_3), (1, demand_2))]"
  by (simp add: pairs_def indexed_def example_containers_def example_demands_def upt_rec)

lemma example_costs:
  "calculate_assignment_cost example_network container_1 demand_1 = Inr 5"
  "calculate_assignment_cost example_network container_1 demand_2 = Inr 1015"
  "calculate_assignment_cost example_network container_2 demand_1 = Inr 1005"
  "calculate_assignment_cost example_network container_2 demand_2 = Inr 15"
  "calculate_assignment_cost example_network container_3 demand_1 = Inr 1005"
  "calculate_assignment_cost example_network container_3 demand_2 = Inr 1015"
  by (simp_all add: calculate_assignment_cost_def find_route_def is_compatible_def
      compatibility_map_def example_defs)

lemma example_objective:
  "traverse (objective_term example_network) (pairs example_containers example_demands) =
     Inr [(5, Assign 0 0), (1015, Assign 0 1), (1005, Assign 1 0), (15, Assign 1 1),
          (1005, Assign 2 0), (1015, Assign 2 1)]"
  by (simp add: example_pairs objective_term_def example_costs)

lemma example_forced:
  "traverse compatibility_constraint (pairs example_containers example_demands) =
     Inr [[], [CEq (LVar (Assign 0 1)) (LConst 0)], [CEq (LVar (Assign 1 0)) (LConst 0)], [],
          [CEq (LVar (Assign 2 0)) (LConst 0)], [CEq (LVar (Assign 2 1)) (LConst 0)]]"
  by (simp add: example_pairs compatibility_constraint_def is_compatible_def
      compatibility_map_def container_1_def container_2_def container_3_def
      demand_1_def demand_2_def)

lemma example_model_explicit:
  "assignment_model example_network example_containers example_demands =
     Inr \<lparr>variables = assign_vars example_containers example_demands,
          objective = [(5, Assign 0 0), (1015, Assign 0 1), (1005, Assign 1 0), (15, Assign 1 1),
                       (1005, Assign 2 0), (1015, Assign 2 1)],
          constraints = container_constraints example_containers example_demands
            @ demand_constraints example_containers example_demands
            @ [CEq (LVar (Assign 0 1)) (LConst 0), CEq (LVar (Assign 1 0)) (LConst 0),
               CEq (LVar (Assign 2 0)) (LConst 0), CEq (LVar (Assign 2 1)) (LConst 0)]\<rparr>"
  by (simp add: assignment_model_def example_objective example_forced)

lemma example_model:
  "assignment_model example_network example_containers example_demands =
     Inr example_assignment_model"
  by (simp add: example_assignment_model_def example_model_explicit)

lemma example_model_value:
  "example_assignment_model =
     \<lparr>variables = assign_vars example_containers example_demands,
      objective = [(5, Assign 0 0), (1015, Assign 0 1), (1005, Assign 1 0), (15, Assign 1 1),
                   (1005, Assign 2 0), (1015, Assign 2 1)],
      constraints = container_constraints example_containers example_demands
        @ demand_constraints example_containers example_demands
        @ [CEq (LVar (Assign 0 1)) (LConst 0), CEq (LVar (Assign 1 0)) (LConst 0),
           CEq (LVar (Assign 2 0)) (LConst 0), CEq (LVar (Assign 2 1)) (LConst 0)]\<rparr>"
  by (simp add: example_assignment_model_def example_model_explicit)

lemma assign_feasible: "feasible example_assignment_model assign_values"
  by (simp add: example_model_value feasible_def
      assign_vars_def container_constraints_def demand_constraints_def within_bounds_def
      assign_values_def example_containers_def example_demands_def upt_rec)

lemma assign_sound: "solver_sound assign_solver example_assignment_model"
  by (simp add: solver_sound_def assign_solver_def assign_feasible)

lemma example_chosen:
  "assigned_pairs assign_values example_containers example_demands =
     [((0, container_1), (0, demand_1)), ((1, container_2), (1, demand_2))]"
  by (simp add: assigned_pairs_def example_pairs assigned_def assign_values_def)

lemma example_fields:
  "cd_id container_1 = Some ''c1''" "cd_type container_1 = Some ''20GP''"
  "cd_current_port container_1 = Some ''A''"
  "cd_id container_2 = Some ''c2''" "cd_type container_2 = Some ''40GP''"
  "cd_current_port container_2 = Some ''A''"
  "cd_id container_3 = Some ''c3''" "cd_type container_3 = Some ''45HC''"
  "cd_current_port container_3 = Some ''A''"
  "dd_id demand_1 = Some ''d1''" "dd_port demand_1 = Some ''B''"
  "dd_required_type demand_1 = Some ''20GP''" "dd_priority demand_1 = Some 3"
  "dd_id demand_2 = Some ''d2''" "dd_port demand_2 = Some ''B''"
  "dd_required_type demand_2 = Some ''40HC''" "dd_priority demand_2 = Some 1"
  by (simp_all add: container_1_def container_2_def container_3_def demand_1_def demand_2_def)

lemma example_entries:
  "make_assignment example_network ((i, container_1), (j, demand_1)) =
     Inr \<lparr>a_container_id = ''c1'', a_demand_id = ''d1'', a_from_port = ''A'', a_to_port = ''B'',
          a_container_type = ''20GP'', a_cost = 5\<rparr>"
  "make_assignment example_network ((i, container_2), (j, demand_2)) =
     Inr \<lparr>a_container_id = ''c2'', a_demand_id = ''d2'', a_from_port = ''A'', a_to_port = ''B'',
          a_container_type = ''40GP'', a_cost = 15\<rparr>"
  by (simp_all add: make_assignment_def example_costs example_fields)

lemma example_extract:
  "extract_assignment_solution example_network example_assignment_model assign_values
     example_containers example_demands = Inr example_assignments"
proof -
  have "\<exists>out. extract_assignment_solution example_network example_assignment_model assign_values
     example_containers example_demands = Inr out"
    by (simp add: extract_assignment_solution_def example_chosen example_entries)
  then show ?thesis
    by (auto simp: example_assignments_def)
qed

lemma example_nonempty: "example_containers \<noteq> []" "example_demands \<noteq> []"
  by (simp_all add: example_containers_def example_demands_def)

lemma example_assignment_optimal:
  "optimize_assignment (Some assign_solver) example_network example_containers example_demands =
     Assignment example_assignments"
  by (simp add: optimize_assignment_def example_model example_extract assign_solver_def
      example_nonempty)

lemma example_assignments_value:
  "assignments example_assignments =
     [\<lparr>a_container_id = ''c1'', a_demand_id = ''d1'', a_from_port = ''A'', a_to_port = ''B'',
          a_container_type = ''20GP'', a_cost = 5\<rparr>,
      \<lparr>a_container_id = ''c2'', a_demand_id = ''d2'', a_from_port = ''A'', a_to_port = ''B'',
          a_container_type = ''40GP'', a_cost = 15\<rparr>]"
  "unassigned_containers example_assignments = [container_3]"
  "unmet_demands example_assignments = Some []"
  by (simp_all add: example_assignments_def extract_assignment_solution_def example_chosen
      example_entries container_index_def demand_index_def)
    (simp_all add: indexed_def example_containers_def example_demands_def upt_rec)

text \<open>
  Claim C4. In every assignment solution returned after an optimal solve, the returned
  entries are, in order, the entries of the index pairs \<open>(i, j)\<close> whose variable the solver
  set: in these pairs each container index occurs at most once, each demand index occurs
  at most once, and every pair has compatible types. Every incompatible pair of the
  request has the constraint \<open>x[i][j] == 0\<close> in the model (so its variable is 0): it is
  forced, not only penalised. The compatibility table is: 20GP satisfies only 20GP; 40GP
  satisfies 40GP or 40HC; 40HC satisfies 40HC or 40GP. The assumption on the solver is its
  contract on the model built (\<open>solver_sound\<close>).
\<close>

theorem assignment_invariants:
  assumes model: "assignment_model self cs ds = Inr m"
    and sound: "solver_sound solver m"
    and opt: "optimize_assignment (Some solver) self cs ds = Assignment out"
    and ne: "cs \<noteq> []" "ds \<noteq> []"
  shows "(\<exists>s. solver m = Solved OPTIMAL s
      \<and> list_all2 (\<lambda>p a. make_assignment self p = Inr a) (assigned_pairs s cs ds) (assignments out)
      \<and> distinct (map container_index (assigned_pairs s cs ds))
      \<and> distinct (map demand_index (assigned_pairs s cs ds))
      \<and> list_all compatible_pair (assigned_pairs s cs ds)
      \<and> list_all (\<lambda>p. compatible_pair p \<or>
            CEq (LVar (Assign (container_index p) (demand_index p))) (LConst 0) \<in> set (constraints m)
            \<and> s (Assign (container_index p) (demand_index p)) = 0) (pairs cs ds))
    \<and> (is_compatible ''20GP'' rt \<longleftrightarrow> rt = ''20GP'')
    \<and> (is_compatible ''40GP'' rt \<longleftrightarrow> rt = ''40GP'' \<or> rt = ''40HC'')
    \<and> (is_compatible ''40HC'' rt \<longleftrightarrow> rt = ''40HC'' \<or> rt = ''40GP'')"
proof -
  from opt ne model obtain s where s: "solver m = Solved OPTIMAL s"
    and ex: "extract_assignment_solution self m s cs ds = Inr out"
    by (rule optimal_assignment_result)
  from sound s have f: "feasible m s"
    by (simp add: solver_sound_def)
  have forced: "list_all (\<lambda>p. compatible_pair p \<or>
            CEq (LVar (Assign (container_index p) (demand_index p))) (LConst 0) \<in> set (constraints m)
            \<and> s (Assign (container_index p) (demand_index p)) = 0) (pairs cs ds)"
    unfolding list_all_iff
  proof
    fix p
    assume p: "p \<in> set (pairs cs ds)"
    obtain i c j d where pe: "p = ((i, c), (j, d))"
      by (metis prod.exhaust)
    with p have mem: "i < length cs" "c = cs ! i" "j < length ds" "d = ds ! j"
      by (auto simp: pairs_set)
    from model_types_present [OF model mem(1) mem(3)] obtain ct rt
      where t: "cd_type (cs ! i) = Some ct" "dd_required_type (ds ! j) = Some rt"
      by blast
    show "compatible_pair p \<or>
            CEq (LVar (Assign (container_index p) (demand_index p))) (LConst 0) \<in> set (constraints m)
            \<and> s (Assign (container_index p) (demand_index p)) = 0"
    proof (cases "is_compatible ct rt")
      case True
      with t mem pe show ?thesis
        by (simp add: compatible_pair_def)
    next
      case False
      from forced_zero [OF model f mem(1) mem(3) t False] pe show ?thesis
        by (simp add: container_index_def demand_index_def)
    qed
  qed
  have "list_all compatible_pair (assigned_pairs s cs ds)"
    unfolding list_all_iff using chosen_compatible [OF model f] by blast
  with s extract_assignment_parts(1) [OF ex] chosen_distinct_containers [OF model f]
    chosen_distinct_demands [OF model f] forced
  show ?thesis
    by (auto simp: is_compatible_table)
qed

theorem assignment_invariants_witness:
  "list_all2 (\<lambda>p a. make_assignment example_network p = Inr a)
     (assigned_pairs assign_values example_containers example_demands)
     (assignments example_assignments)
   \<and> distinct (map container_index (assigned_pairs assign_values example_containers example_demands))
   \<and> distinct (map demand_index (assigned_pairs assign_values example_containers example_demands))
   \<and> list_all compatible_pair (assigned_pairs assign_values example_containers example_demands)"
proof -
  from assignment_invariants [OF example_model assign_sound example_assignment_optimal
      example_nonempty]
  obtain s where s: "assign_solver example_assignment_model = Solved OPTIMAL s"
    and p: "list_all2 (\<lambda>p a. make_assignment example_network p = Inr a)
       (assigned_pairs s example_containers example_demands) (assignments example_assignments)
     \<and> distinct (map container_index (assigned_pairs s example_containers example_demands))
     \<and> distinct (map demand_index (assigned_pairs s example_containers example_demands))
     \<and> list_all compatible_pair (assigned_pairs s example_containers example_demands)"
    by blast
  from s have "s = assign_values"
    by (simp add: assign_solver_def)
  with p show ?thesis
    by simp
qed

text \<open>
  Claim C5. For a container and a demand (with the keys the cost function reads), the
  assignment cost is 10, plus the transport cost of the first route from the container's
  current port to the demand's port (0 when no route matches), plus 1000 when the types
  are incompatible, minus 5 times the demand's priority (0 when the demand has no
  priority). The objective of the model holds, for every pair in order, this cost as the
  coefficient of the pair's variable; and every returned assignment entry reports this
  cost for the container and the demand it names.
\<close>

theorem assignment_cost:
  "(cd_current_port c = Some fp \<and> dd_port d = Some tp \<and> cd_type c = Some ct
      \<and> dd_required_type d = Some rt \<longrightarrow>
      calculate_assignment_cost self c d =
        Inr (10 + (case find (\<lambda>r. from_port r = fp \<and> to_port r = tp) (routes self) of
                     None \<Rightarrow> 0 | Some r \<Rightarrow> transport_cost r)
                + (if is_compatible ct rt then 0 else 1000)
                - 5 * real_of_int (case dd_priority d of None \<Rightarrow> 0 | Some p \<Rightarrow> p)))
   \<and> (assignment_model self cs ds = Inr m \<longrightarrow>
        list_all2 (\<lambda>p t. \<exists>k. calculate_assignment_cost self (snd (fst p)) (snd (snd p)) = Inr k
                            \<and> t = (k, Assign (container_index p) (demand_index p)))
          (pairs cs ds) (objective m))
   \<and> (optimize_assignment created self cs ds = Assignment out \<and> a \<in> set (assignments out) \<longrightarrow>
        (\<exists>i j. i < length cs \<and> j < length ds
           \<and> calculate_assignment_cost self (cs ! i) (ds ! j) = Inr (a_cost a)
           \<and> cd_id (cs ! i) = Some (a_container_id a)
           \<and> dd_id (ds ! j) = Some (a_demand_id a)))"
proof (intro conjI impI)
  assume "cd_current_port c = Some fp \<and> dd_port d = Some tp \<and> cd_type c = Some ct
      \<and> dd_required_type d = Some rt"
  then show "calculate_assignment_cost self c d =
        Inr (10 + (case find (\<lambda>r. from_port r = fp \<and> to_port r = tp) (routes self) of
                     None \<Rightarrow> 0 | Some r \<Rightarrow> transport_cost r)
                + (if is_compatible ct rt then 0 else 1000)
                - 5 * real_of_int (case dd_priority d of None \<Rightarrow> 0 | Some p \<Rightarrow> p))"
    by (cases "dd_priority d") (simp_all add: calculate_assignment_cost_def find_route_def)
next
  assume "assignment_model self cs ds = Inr m"
  then have "traverse (objective_term self) (pairs cs ds) = Inr (objective m)"
    by (rule assignment_model_parts)
  then have "list_all2 (\<lambda>p t. objective_term self p = Inr t) (pairs cs ds) (objective m)"
    by (simp add: traverse_Inr)
  then show "list_all2 (\<lambda>p t. \<exists>k. calculate_assignment_cost self (snd (fst p)) (snd (snd p)) = Inr k
                            \<and> t = (k, Assign (container_index p) (demand_index p)))
          (pairs cs ds) (objective m)"
    by (rule list_all2_mono)
      (auto simp: objective_term_def container_index_def demand_index_def split: sum.splits)
next
  assume h: "optimize_assignment created self cs ds = Assignment out \<and> a \<in> set (assignments out)"
  then have ne: "cs \<noteq> []" "ds \<noteq> []"
    by (auto simp: optimize_assignment_def split: if_splits)
  with h obtain solver m s where "extract_assignment_solution self m s cs ds = Inr out"
    by (auto simp: optimize_assignment_def
        split: option.splits sum.splits solve_outcome.splits if_splits)
  then have "list_all2 (\<lambda>p a. make_assignment self p = Inr a) (assigned_pairs s cs ds) (assignments out)"
    by (rule extract_assignment_parts)
  then have "list_all2 (\<lambda>a p. make_assignment self p = Inr a) (assignments out) (assigned_pairs s cs ds)"
    by (simp add: list_all2_conv_all_nth)
  with h obtain p where p: "p \<in> set (assigned_pairs s cs ds)" "make_assignment self p = Inr a"
    by (auto elim: list_all2_pick)
  obtain i c j d where pe: "p = ((i, c), (j, d))"
    by (metis prod.exhaust)
  with p(1) have mem: "i < length cs" "c = cs ! i" "j < length ds" "d = ds ! j"
    by (auto simp: assigned_pairs_def pairs_set)
  with make_assignment_cost [OF p(2)] pe
  show "\<exists>i j. i < length cs \<and> j < length ds
           \<and> calculate_assignment_cost self (cs ! i) (ds ! j) = Inr (a_cost a)
           \<and> cd_id (cs ! i) = Some (a_container_id a)
           \<and> dd_id (ds ! j) = Some (a_demand_id a)"
    by auto
qed

theorem assignment_cost_witness:
  "calculate_assignment_cost example_network container_1 demand_1 = Inr 5
   \<and> list_all2 (\<lambda>p t. \<exists>k. calculate_assignment_cost example_network (snd (fst p)) (snd (snd p))
                             = Inr k
                          \<and> t = (k, Assign (container_index p) (demand_index p)))
        (pairs example_containers example_demands) (objective example_assignment_model)
   \<and> (\<exists>i j. i < length example_containers \<and> j < length example_demands
         \<and> calculate_assignment_cost example_network (example_containers ! i)
              (example_demands ! j) = Inr 15
         \<and> cd_id (example_containers ! i) = Some ''c2''
         \<and> dd_id (example_demands ! j) = Some ''d2'')"
proof -
  let ?a = "\<lparr>a_container_id = ''c2'', a_demand_id = ''d2'', a_from_port = ''A'', a_to_port = ''B'',
          a_container_type = ''40GP'', a_cost = 15\<rparr>"
  have h1: "cd_current_port container_1 = Some ''A'' \<and> dd_port demand_1 = Some ''B''
      \<and> cd_type container_1 = Some ''20GP'' \<and> dd_required_type demand_1 = Some ''20GP''"
    by (simp add: example_fields)
  have h3: "optimize_assignment (Some assign_solver) example_network example_containers
       example_demands = Assignment example_assignments \<and> ?a \<in> set (assignments example_assignments)"
    by (simp add: example_assignment_optimal example_assignments_value)
  have v: "(10 + (case find (\<lambda>r. from_port r = ''A'' \<and> to_port r = ''B'') (routes example_network) of
                     None \<Rightarrow> 0 | Some r \<Rightarrow> transport_cost r)
                + (if is_compatible ''20GP'' ''20GP'' then 0 else 1000)
                - 5 * real_of_int (case dd_priority demand_1 of None \<Rightarrow> 0 | Some p \<Rightarrow> p)) = 5"
    by (simp add: example_network_def route_AB_def is_compatible_table example_fields)
  show ?thesis
    using assignment_cost [where c = container_1 and d = demand_1 and fp = "''A''" and tp = "''B''"
        and ct = "''20GP''" and rt = "''20GP''" and self = example_network
        and cs = example_containers and ds = example_demands and m = example_assignment_model
        and created = "Some assign_solver" and out = example_assignments and a = ?a]
      h1 h3 v example_model
    by simp
qed

text \<open>
  Claim C10. For a container whose type is none of 20GP, 40GP, 40HC, \<open>_is_compatible\<close> is
  false for every required type; so after an optimal solve the container's index is in no
  assigned pair, and the container is listed among the unassigned containers.
\<close>

theorem unknown_type_never_assigned:
  assumes model: "assignment_model self cs ds = Inr m"
    and sound: "solver_sound solver m"
    and opt: "optimize_assignment (Some solver) self cs ds = Assignment out"
    and ne: "cs \<noteq> []" "ds \<noteq> []"
    and i: "i < length cs" and ty: "cd_type (cs ! i) = Some ct"
    and unk: "ct \<noteq> ''20GP''" "ct \<noteq> ''40GP''" "ct \<noteq> ''40HC''"
  shows "\<not> is_compatible ct rt
    \<and> (\<exists>s. solver m = Solved OPTIMAL s
          \<and> list_all2 (\<lambda>p a. make_assignment self p = Inr a) (assigned_pairs s cs ds)
               (assignments out)
          \<and> i \<notin> set (map container_index (assigned_pairs s cs ds)))
    \<and> cs ! i \<in> set (unassigned_containers out)"
proof -
  from opt ne model obtain s where s: "solver m = Solved OPTIMAL s"
    and ex: "extract_assignment_solution self m s cs ds = Inr out"
    by (rule optimal_assignment_result)
  from sound s have f: "feasible m s"
    by (simp add: solver_sound_def)
  have inc: "\<not> is_compatible ct r" for r
    using unk by (rule is_compatible_unknown)
  have notin: "i \<notin> set (map container_index (assigned_pairs s cs ds))"
  proof
    assume "i \<in> set (map container_index (assigned_pairs s cs ds))"
    then obtain p where p: "p \<in> set (assigned_pairs s cs ds)" "container_index p = i"
      by auto
    obtain i' c j d where pe: "p = ((i', c), (j, d))"
      by (metis prod.exhaust)
    with p have mem: "c = cs ! i" "i' = i"
      by (auto simp: assigned_pairs_def pairs_set container_index_def)
    from chosen_compatible [OF model f p(1)] pe mem ty inc show False
      by (auto simp: compatible_pair_def split: option.splits)
  qed
  have "(i, cs ! i) \<in> set (indexed cs)"
    using i by (simp add: indexed_set)
  with notin have "cs ! i \<in> set (unassigned_containers out)"
    unfolding extract_assignment_parts(2) [OF ex] by force
  with s extract_assignment_parts(1) [OF ex] notin inc show ?thesis
    by blast
qed

theorem unknown_type_never_assigned_witness:
  "\<not> is_compatible ''45HC'' ''40HC''
   \<and> 2 \<notin> set (map container_index (assigned_pairs assign_values example_containers example_demands))
   \<and> container_3 \<in> set (unassigned_containers example_assignments)"
proof -
  have i: "2 < length example_containers"
    and ty: "cd_type (example_containers ! 2) = Some ''45HC''"
    and unk: "''45HC'' \<noteq> ''20GP''" "''45HC'' \<noteq> ''40GP''" "''45HC'' \<noteq> ''40HC''"
    by (simp_all add: example_containers_def example_fields)
  from unknown_type_never_assigned [OF example_model assign_sound example_assignment_optimal
      example_nonempty i ty unk, of "''40HC''"]
  obtain s where s: "assign_solver example_assignment_model = Solved OPTIMAL s"
    and p: "\<not> is_compatible ''45HC'' ''40HC''"
      "2 \<notin> set (map container_index (assigned_pairs s example_containers example_demands))"
      "example_containers ! 2 \<in> set (unassigned_containers example_assignments)"
    by blast
  from s have "s = assign_values"
    by (simp add: assign_solver_def)
  with p show ?thesis
    by (simp add: example_containers_def)
qed

section \<open>The empty cases of routing and assignment\<close>

text \<open>
  The path that solves a batch: whenever a call with a batch that is not empty returns a
  result, the result holds exactly one route (the one vehicle's) and has no
  \<open>total_cost\<close> key; and a vehicle that visits no task gives the one empty route with
  distance 0.
\<close>

lemma solved_batch_shape:
  assumes "relocs \<noteq> []" and "optimize_vehicle_routing library self relocs = Routing out"
  shows "length (rr_routes out) = 1 \<and> rr_total_cost out = None"
  using assms
  by (auto simp: optimize_vehicle_routing_def extract_routing_solution_def
      split: routing_outcome.splits sum.splits)

lemma no_visit_shape:
  "extract_routing_solution relocs 0 [0] =
     Inr \<lparr>rr_routes = [[]], rr_total_cost = None, rr_total_distance = 0\<rparr>"
  by (simp add: extract_routing_solution_def)

text \<open>
  Claim C6 at the input \<open>relocations = []\<close>: whatever the routing library is (it is neither
  constructed nor invoked), the call returns \<open>{routes: [], total_cost: 0, total_distance: 0}\<close>:
  the distance and the cost are 0, but \<open>routes\<close> is the empty list, not the list holding
  one empty route that the solving path returns for a vehicle with nothing to visit.
\<close>

theorem empty_batch_result:
  "optimize_vehicle_routing library self [] =
     Routing \<lparr>rr_routes = [], rr_total_cost = Some 0, rr_total_distance = 0\<rparr>"
  by (simp add: optimize_vehicle_routing_def)

theorem empty_batch_result_witness:
  "optimize_vehicle_routing no_routing example_network [] =
     Routing \<lparr>rr_routes = [], rr_total_cost = Some 0, rr_total_distance = 0\<rparr>"
  by (rule empty_batch_result)

theorem empty_batch_routes_not_one_empty_route:
  "\<not> (\<exists>out. optimize_vehicle_routing no_routing example_network [] = Routing out
          \<and> rr_routes out = [[]])"
  by (simp add: optimize_vehicle_routing_def)

text \<open>
  Claim C9 at the input \<open>containers = []\<close>, \<open>demands = [demand_1]\<close>: the returned dict has
  an empty assignments list and the input containers as unassigned containers, and the
  solver is not looked at; but it has no \<open>unmet_demands\<close> (and no \<open>total_cost\<close>) key,
  although one demand is unmet.
\<close>

theorem empty_containers_result:
  "optimize_assignment created self [] [demand_1] =
     Assignment \<lparr>assignments = [], unassigned_containers = [], unmet_demands = None,
                 as_total_cost = None\<rparr>"
  by (simp add: optimize_assignment_def)

section \<open>The command line entry point on a payload that fails to load\<close>

text \<open>
  Claim C8 at an input file whose only port entry lacks every field: \<open>load_data\<close> fails,
  the JSON error object is printed to standard output, standard error holds only the
  plain diagnostic line of \<open>load_data\<close>, and the exit status is 1.
\<close>

theorem main_load_failure:
  \<open>main bad_file_env [''container_optimizer.py'', ''input.json''] =
     \<lparr>stdout = [Text ''{"error": "Failed to load input data"}''],
      stderr = [Text (''Error loading data: '' @ [CHR 0x27] @ ''name'' @ [CHR 0x27])],
      exit_status = 1\<rparr>\<close>
  by (simp add: main_def bad_file_env_def bad_input_def empty_port_def load_data_def
      load_body_def parse_port_def init_def)

end
